theory Spec2Isabelle
  imports Main "HOL-Library.Word" "HOL-Library.Sublist"
begin

section \<open>Values of the host interface\<close>

text \<open>
  The Windows service controller of \<^verbatim>\<open>service_windows.go\<close>. The types
  \<^verbatim>\<open>svc.State\<close>, \<^verbatim>\<open>svc.Cmd\<close> and \<^verbatim>\<open>svc.Accepted\<close> are 32-bit
  unsigned integers in \<^verbatim>\<open>golang.org/x/sys/windows/svc\<close>; the constants below
  carry the values that package gives them (the \<^verbatim>\<open>SERVICE_*\<close> and
  \<^verbatim>\<open>SERVICE_CONTROL_*\<close> numbers of the Windows API).
\<close>

type_synonym svc_State = "32 word"
type_synonym svc_Cmd = "32 word"
type_synonym svc_Accepted = "32 word"

definition svc_Stopped :: svc_State where "svc_Stopped = 1"
definition svc_StartPending :: svc_State where "svc_StartPending = 2"
definition svc_StopPending :: svc_State where "svc_StopPending = 3"
definition svc_Running :: svc_State where "svc_Running = 4"
definition svc_ContinuePending :: svc_State where "svc_ContinuePending = 5"
definition svc_PausePending :: svc_State where "svc_PausePending = 6"
definition svc_Paused :: svc_State where "svc_Paused = 7"

definition svc_Stop :: svc_Cmd where "svc_Stop = 1"
definition svc_Interrogate :: svc_Cmd where "svc_Interrogate = 4"
definition svc_Shutdown :: svc_Cmd where "svc_Shutdown = 5"

definition svc_AcceptStop :: svc_Accepted where "svc_AcceptStop = 1"
definition svc_AcceptShutdown :: svc_Accepted where "svc_AcceptShutdown = 4"

lemmas svc_consts =
  svc_Stopped_def svc_StartPending_def svc_StopPending_def svc_Running_def
  svc_ContinuePending_def svc_PausePending_def svc_Paused_def
  svc_Stop_def svc_Interrogate_def svc_Shutdown_def
  svc_AcceptStop_def svc_AcceptShutdown_def

text \<open>\<^verbatim>\<open>svc.Status\<close>: the status record sent to the host on the \<^verbatim>\<open>changes\<close>
  channel. A Go composite literal leaves the fields it does not name at zero.\<close>

record svc_Status =
  State :: svc_State
  Accepts :: svc_Accepted
  CheckPoint :: "32 word"
  WaitHint :: "32 word"

text \<open>\<^verbatim>\<open>svc.ChangeRequest\<close>: what the host delivers on the channel \<^verbatim>\<open>r\<close>. The
  code reads \<^verbatim>\<open>Cmd\<close> and \<^verbatim>\<open>CurrentStatus\<close> only.\<close>

record ChangeRequest =
  Cmd :: svc_Cmd
  EventType :: "32 word"
  CurrentStatus :: svc_Status

text \<open>
  Go \<^verbatim>\<open>error\<close> values; \<^verbatim>\<open>nil\<close> is \<open>None\<close> of \<open>error option\<close>.
  \<open>Errno\<close> is a \<^verbatim>\<open>syscall.Errno\<close>, \<open>ErrorString\<close> a value made by
  \<^verbatim>\<open>fmt.Errorf\<close> or \<^verbatim>\<open>errors.New\<close> with the given text.
  Modelled from the spec: \<open>ErrNotInstalled\<close>, the package's sentinel for a
  service that is not installed (the spec's NotInstalledError), is declared
  outside this file; it is a value of its own, equal to no other error.
\<close>

datatype error = Errno nat | ErrNotInstalled | ErrorString string

definition errnoServiceDoesNotExist :: nat where
  "errnoServiceDoesNotExist = 1060"

text \<open>The test \<^verbatim>\<open>errno, ok := err.(syscall.Errno); ok && errno == errnoServiceDoesNotExist\<close>.\<close>

fun isServiceDoesNotExist :: "error \<Rightarrow> bool" where
  "isServiceDoesNotExist (Errno n) = (n = errnoServiceDoesNotExist)"
| "isServiceDoesNotExist _ = False"

text \<open>The method \<^verbatim>\<open>Error()\<close>. The text of a value made in this file is the text
  it was made with; the text of the others is given by \<open>ext\<close>.\<close>

fun Error :: "(error \<Rightarrow> string) \<Rightarrow> error \<Rightarrow> string" where
  "Error ext (ErrorString s) = s"
| "Error ext e = ext e"

section \<open>The service value and its client\<close>

text \<open>
  Modelled from the spec: the interfaces \<^verbatim>\<open>Interface\<close> and \<^verbatim>\<open>Shutdowner\<close> are
  declared outside this file; the spec's LifecycleClient has the capabilities
  Start and Stop, each giving a result, and optionally Shutdown. The callbacks
  of the client \<^verbatim>\<open>ws.i\<close> are application code, known here by what they
  return. \<open>client_Shutdown\<close> is \<open>None\<close> when the client does not implement
  \<^verbatim>\<open>Shutdowner\<close> (the type assertion fails).
\<close>

record Interface =
  client_Start :: "error option"
  client_Stop :: "error option"
  client_Shutdown :: "error option option"

text \<open>
  Modelled from the spec: \<^verbatim>\<open>Config\<close>, the configuration the service value
  embeds (the spec's ServiceDescriptor), is declared outside this file; the
  fields are those this file reads. \<^verbatim>\<open>EnvVars\<close> is a
  Go map, listed here in the order its \<^verbatim>\<open>range\<close> loop visits it. The three
  accessors are the methods \<^verbatim>\<open>ws.Option.string\<close>, \<^verbatim>\<open>ws.Option.bool\<close> and
  \<^verbatim>\<open>ws.Option.int\<close> (option name, default), which this file calls and does
  not define.
\<close>

record Config =
  Name :: string
  DisplayName :: string
  Description :: string
  UserName :: string
  Arguments :: "string list"
  Dependencies :: "string list"
  EnvVars :: "(string \<times> string) list"
  Option_string :: "string \<Rightarrow> string \<Rightarrow> string"
  Option_bool :: "string \<Rightarrow> bool \<Rightarrow> bool"
  Option_int :: "string \<Rightarrow> int \<Rightarrow> int"

record windowsService = Config +
  ws_i :: Interface
  stopStartErr :: "error option"

definition setError :: "windowsService \<Rightarrow> error option \<Rightarrow> windowsService" where
  "setError ws err = ws\<lparr>stopStartErr := err\<rparr>"

definition getError :: "windowsService \<Rightarrow> error option" where
  "getError ws = stopStartErr ws"

section \<open>The dispatch loop\<close>

text \<open>
  What \<^verbatim>\<open>Execute\<close> does that the host and the client can see, in order: a
  receive from \<^verbatim>\<open>r\<close>, a send on \<^verbatim>\<open>changes\<close>, a call of a client callback
  with the value it returned.
\<close>

datatype event =
    Recv ChangeRequest
  | Emit svc_Status
  | Call_Start "error option"
  | Call_Stop "error option"
  | Call_Shutdown "error option"

definition cmdsAccepted :: svc_Accepted where
  "cmdsAccepted = or svc_AcceptStop svc_AcceptShutdown"

definition status_of :: "svc_State \<Rightarrow> svc_Accepted \<Rightarrow> svc_Status" where
  "status_of st acc = \<lparr>State = st, Accepts = acc, CheckPoint = 0, WaitHint = 0\<rparr>"

text \<open>A run is the events so far, the service value, and the returned value:
  \<open>None\<close> while the function has not returned.\<close>

type_synonym 'a run = "event list \<times> windowsService \<times> 'a option"

fun after :: "event list \<Rightarrow> 'a run \<Rightarrow> 'a run" where
  "after es (tr, ws, res) = (es @ tr, ws, res)"

text \<open>
  The loop \<^verbatim>\<open>for { c := <-r; switch c.Cmd {...} }\<close>, run on the requests the
  host delivers. With no request left the loop is blocked in the receive and
  has not returned.
\<close>

fun Execute_loop :: "windowsService \<Rightarrow> ChangeRequest list \<Rightarrow> (bool \<times> 32 word) run" where
  "Execute_loop ws [] = ([], ws, None)"
| "Execute_loop ws (c # r) =
    (if Cmd c = svc_Interrogate then
       after [Recv c, Emit (CurrentStatus c)] (Execute_loop ws r)
     else if Cmd c = svc_Stop then
       (case client_Stop (ws_i ws) of
          Some err \<Rightarrow>
            ([Recv c, Emit (status_of svc_StopPending 0), Call_Stop (Some err)],
             setError ws (Some err), Some (True, 2))
        | None \<Rightarrow>
            ([Recv c, Emit (status_of svc_StopPending 0), Call_Stop None],
             ws, Some (False, 0)))
     else if Cmd c = svc_Shutdown then
       (let (call, err) =
          (case client_Shutdown (ws_i ws) of
             Some res \<Rightarrow> (Call_Shutdown res, res)
           | None \<Rightarrow> (Call_Stop (client_Stop (ws_i ws)), client_Stop (ws_i ws)))
        in case err of
          Some e \<Rightarrow>
            ([Recv c, Emit (status_of svc_StopPending 0), call],
             setError ws (Some e), Some (True, 2))
        | None \<Rightarrow>
            ([Recv c, Emit (status_of svc_StopPending 0), call],
             ws, Some (False, 0)))
     else after [Recv c] (Execute_loop ws r))"

definition Execute :: "windowsService \<Rightarrow> ChangeRequest list \<Rightarrow> (bool \<times> 32 word) run" where
  "Execute ws r =
    (case client_Start (ws_i ws) of
       Some err \<Rightarrow>
         ([Emit (status_of svc_StartPending 0), Call_Start (Some err)],
          setError ws (Some err), Some (True, 1))
     | None \<Rightarrow>
         after [Emit (status_of svc_StartPending 0), Call_Start None,
                Emit (status_of svc_Running cmdsAccepted)]
           (Execute_loop ws r))"

section \<open>Run\<close>





section \<open>The service manager and the clock\<close>

text \<open>\<^verbatim>\<open>time.Duration\<close> is a signed 64-bit count of nanoseconds; its arithmetic
  wraps.\<close>

type_synonym Duration = "64 word"

definition Millisecond :: Duration where "Millisecond = 1000000"
definition Second :: Duration where "Second = 1000 * Millisecond"

text \<open>Modelled from the spec: the type \<^verbatim>\<open>Status\<close> of the status that
  \<^verbatim>\<open>Status()\<close> reports is declared outside this file; it is the spec's
  ObservedStatus, one of Running, Stopped and Unknown.\<close>

datatype Status = StatusUnknown | StatusRunning | StatusStopped

text \<open>\<^verbatim>\<open>mgr.Config\<close>, as far as \<^verbatim>\<open>Install\<close> fills it in.\<close>

record mgr_Config =
  cfg_DisplayName :: string
  cfg_Description :: string
  cfg_StartType :: "32 word"
  cfg_ServiceStartName :: string
  cfg_Password :: string
  cfg_Dependencies :: "string list"
  cfg_DelayedAutoStart :: bool
  cfg_ServiceType :: "32 word"

text \<open>
  The calls the controller makes on the operating system, in the order it makes
  them: the service control manager, the event log, the registry, timers, and
  the two receives of a \<^verbatim>\<open>select\<close>. A trace of them is what an operation did.
\<close>

datatype call =
    OpenSCManager
  | OpenService string
  | mgr_Connect
  | mgr_Disconnect
  | mgr_OpenService string
  | mgr_CreateService string string mgr_Config "string list"
  | Service_Close
  | Service_Query
  | Service_Control svc_Cmd
  | Service_Start
  | Service_Delete
  | Service_SetRecoveryActions int Duration "32 word"
  | eventlog_InstallAsEventCreate string "32 word"
  | eventlog_Remove string
  | registry_CreateKey string
  | Key_SetStringsValue string "string list"
  | Key_Close
  | time_After Duration
  | time_NewTicker Duration
  | Ticker_Stop
  | Recv_tick
  | Recv_timeout

text \<open>What a \<^verbatim>\<open>select\<close> over the ticker and the timeout channel receives:
  a tick, given with the result of the poll made on it, or the timeout.\<close>

datatype 'a select = Tick 'a | Timeout

text \<open>
  The operating system, by what each call returns. Every call site of an
  operation runs at most once in it, the polls of the two waits apart, whose
  results come with the ticks. \<open>w_Atoi\<close>, \<open>w_ParseDuration\<close> and
  \<open>w_Sprint\<close> are the library functions \<^verbatim>\<open>strconv.Atoi\<close>,
  \<^verbatim>\<open>time.ParseDuration\<close> and the \<^verbatim>\<open>%v\<close> formatting of a status;
  \<open>w_Error\<close> gives the text of the errors this file does not make.
\<close>

record world =
  w_OpenSCManager :: "error option"
  w_OpenService :: "error option"
  w_Query :: "error + svc_Status"
  w_Control :: "error + svc_Status"
  w_Start :: "error option"
  w_stopWait :: "(error + svc_Status) select list"
  w_OpenKey :: "error option"
  w_GetStringValue :: "error + string"
  w_Atoi :: "string \<Rightarrow> int option"
  w_Connect :: "error option"
  w_mgr_OpenService :: "error option"
  w_Delete :: "error option"
  w_eventlog_Remove :: "error option"
  w_uninstallWait :: "(error option) select list"
  w_execPath :: "error + string"
  w_CreateKey :: "error option"
  w_SetStringsValue :: "error option"
  w_Key_Close :: "error option"
  w_CreateService :: "error option"
  w_SetRecoveryActions :: "error option"
  w_InstallAsEventCreate :: "error option"
  w_ParseDuration :: "string \<Rightarrow> Duration option"
  w_Sprint :: "svc_Status \<Rightarrow> string"
  w_Error :: "error \<Rightarrow> string"

text \<open>An operation gives the calls it made and, once it has returned, its
  result; \<open>None\<close> while it is blocked in a \<^verbatim>\<open>select\<close>.\<close>

type_synonym 'a op = "call list \<times> 'a option"

fun calls_before :: "call list \<Rightarrow> 'a op \<Rightarrow> 'a op" where
  "calls_before cs (tr, res) = (cs @ tr, res)"

text \<open>Deferred calls run when the function returns, not while it is blocked.\<close>

fun deferred :: "call list \<Rightarrow> 'a op \<Rightarrow> 'a op" where
  "deferred cs (tr, None) = (tr, None)"
| "deferred cs (tr, Some res) = (tr @ cs, Some res)"

section \<open>Status, Start, Stop, Restart\<close>

definition getStopTimeout :: "world \<Rightarrow> Duration" where
  "getStopTimeout w =
    (let defaultTimeout = Millisecond * 20000 in
     case w_OpenKey w of
       Some err \<Rightarrow> defaultTimeout
     | None \<Rightarrow>
         (case w_GetStringValue w of
            Inl err \<Rightarrow> defaultTimeout
          | Inr sv \<Rightarrow>
              (case w_Atoi w sv of
                 None \<Rightarrow> defaultTimeout
               | Some v \<Rightarrow> Millisecond * word_of_int v)))"

definition Status :: "windowsService \<Rightarrow> world \<Rightarrow> call list \<times> Status \<times> error option" where
  "Status ws w =
    (case w_OpenSCManager w of
       Some err \<Rightarrow> ([OpenSCManager], StatusUnknown, Some err)
     | None \<Rightarrow>
         (case w_OpenService w of
            Some err \<Rightarrow>
              if isServiceDoesNotExist err
              then ([OpenSCManager, OpenService (Name ws), mgr_Disconnect],
                    StatusUnknown, Some ErrNotInstalled)
              else ([OpenSCManager, OpenService (Name ws), mgr_Disconnect],
                    StatusUnknown, Some err)
          | None \<Rightarrow>
              (case w_Query w of
                 Inl err \<Rightarrow>
                   ([OpenSCManager, OpenService (Name ws), Service_Query,
                     Service_Close, mgr_Disconnect], StatusUnknown, Some err)
               | Inr status \<Rightarrow>
                   ([OpenSCManager, OpenService (Name ws), Service_Query,
                     Service_Close, mgr_Disconnect],
                    (if State status = svc_StartPending \<or> State status = svc_Running
                     then (StatusRunning, None)
                     else if State status = svc_PausePending \<or> State status = svc_Paused \<or>
                             State status = svc_ContinuePending \<or>
                             State status = svc_StopPending \<or> State status = svc_Stopped
                     then (StatusStopped, None)
                     else (StatusUnknown,
                           Some (ErrorString (''unknown status '' @ w_Sprint w status))))))))"

definition Start :: "windowsService \<Rightarrow> world \<Rightarrow> call list \<times> error option" where
  "Start ws w =
    (case w_OpenSCManager w of
       Some err \<Rightarrow> ([OpenSCManager], Some err)
     | None \<Rightarrow>
         (case w_OpenService w of
            Some err \<Rightarrow> ([OpenSCManager, OpenService (Name ws), mgr_Disconnect], Some err)
          | None \<Rightarrow>
              ([OpenSCManager, OpenService (Name ws), Service_Start,
                Service_Close, mgr_Disconnect], w_Start w)))"

text \<open>The loop \<^verbatim>\<open>for status.State != svc.Stopped { select {...} }\<close> of
  \<^verbatim>\<open>stopWait\<close>.\<close>

fun stopWait_loop ::
  "string \<Rightarrow> svc_Status \<Rightarrow> (error + svc_Status) select list \<Rightarrow> (error option) op" where
  "stopWait_loop name status sel =
    (if State status \<noteq> svc_Stopped then
       (case sel of
          [] \<Rightarrow> ([], None)
        | Tick (Inl err) # sel' \<Rightarrow> ([Recv_tick, Service_Query], Some (Some err))
        | Tick (Inr status') # sel' \<Rightarrow>
            calls_before [Recv_tick, Service_Query] (stopWait_loop name status' sel')
        | Timeout # sel' \<Rightarrow>
            ([Recv_timeout],
             Some (Some (ErrorString (''stop service '' @ name @ '' timeout'')))))
     else ([], Some None))"

definition stopWait :: "windowsService \<Rightarrow> world \<Rightarrow> (error option) op" where
  "stopWait ws w =
    (case w_Control w of
       Inl err \<Rightarrow> ([Service_Control svc_Stop], Some (Some err))
     | Inr status \<Rightarrow>
         (let timeDuration = Millisecond * 50 in
          calls_before
            [Service_Control svc_Stop,
             time_After (getStopTimeout w + timeDuration * 2),
             time_NewTicker timeDuration]
            (deferred [Ticker_Stop] (stopWait_loop (Name ws) status (w_stopWait w)))))"

definition Stop :: "windowsService \<Rightarrow> world \<Rightarrow> (error option) op" where
  "Stop ws w =
    (case w_OpenSCManager w of
       Some err \<Rightarrow> ([OpenSCManager], Some (Some err))
     | None \<Rightarrow>
         (case w_OpenService w of
            Some err \<Rightarrow>
              ([OpenSCManager, OpenService (Name ws), mgr_Disconnect], Some (Some err))
          | None \<Rightarrow>
              calls_before [OpenSCManager, OpenService (Name ws)]
                (deferred [Service_Close, mgr_Disconnect] (stopWait ws w))))"

definition Restart :: "windowsService \<Rightarrow> world \<Rightarrow> (error option) op" where
  "Restart ws w =
    (case w_OpenSCManager w of
       Some err \<Rightarrow> ([OpenSCManager], Some (Some err))
     | None \<Rightarrow>
         (case w_OpenService w of
            Some err \<Rightarrow>
              ([OpenSCManager, OpenService (Name ws), mgr_Disconnect], Some (Some err))
          | None \<Rightarrow>
              calls_before [OpenSCManager, OpenService (Name ws)]
                (deferred [Service_Close, mgr_Disconnect]
                   (case stopWait ws w of
                      (tr, None) \<Rightarrow> (tr, None)
                    | (tr, Some (Some err)) \<Rightarrow> (tr, Some (Some err))
                    | (tr, Some None) \<Rightarrow> (tr @ [Service_Start], Some (w_Start w))))))"

section \<open>Uninstall\<close>

text \<open>\<^verbatim>\<open>errors.Is(err, syscall.ERROR_FILE_NOT_FOUND)\<close>: the error values here wrap
  nothing, so the test is equality with errno 2.\<close>

definition is_ERROR_FILE_NOT_FOUND :: "error \<Rightarrow> bool" where
  "is_ERROR_FILE_NOT_FOUND err = (err = Errno 2)"

text \<open>The loop \<^verbatim>\<open>for { select {...} }\<close> of \<^verbatim>\<open>uninstallWait\<close>: on a tick the
  service is opened, and closed again if that succeeds.\<close>

fun uninstallWait_loop :: "string \<Rightarrow> (error option) select list \<Rightarrow> (error option) op" where
  "uninstallWait_loop name [] = ([], None)"
| "uninstallWait_loop name (Tick (Some err) # sel) =
    (if isServiceDoesNotExist err
     then ([Recv_tick, mgr_OpenService name], Some None)
     else ([Recv_tick, mgr_OpenService name],
           Some (Some (ErrorString (''error open service '' @ name)))))"
| "uninstallWait_loop name (Tick None # sel) =
    calls_before [Recv_tick, mgr_OpenService name, Service_Close]
      (uninstallWait_loop name sel)"
| "uninstallWait_loop name (Timeout # sel) =
    ([Recv_timeout], Some (Some (ErrorString (''delete service '' @ name @ '' timeout''))))"

definition uninstallWait :: "windowsService \<Rightarrow> world \<Rightarrow> (error option) op" where
  "uninstallWait ws w =
    (let timeDuration = Millisecond * 100 in
     calls_before
       [time_After (getStopTimeout w + timeDuration * 2), time_NewTicker timeDuration]
       (deferred [Ticker_Stop] (uninstallWait_loop (Name ws) (w_uninstallWait w))))"

definition Uninstall :: "windowsService \<Rightarrow> world \<Rightarrow> (error option) op" where
  "Uninstall ws w =
    (case Stop ws w of
       (tr, None) \<Rightarrow> (tr, None)
     | (tr, Some (Some err)) \<Rightarrow> (tr, Some (Some err))
     | (tr, Some None) \<Rightarrow>
         calls_before tr
           (case w_Connect w of
              Some err \<Rightarrow> ([mgr_Connect], Some (Some err))
            | None \<Rightarrow>
                (case w_mgr_OpenService w of
                   Some err \<Rightarrow>
                     if isServiceDoesNotExist err
                     then ([mgr_Connect, mgr_OpenService (Name ws), mgr_Disconnect], Some None)
                     else ([mgr_Connect, mgr_OpenService (Name ws), mgr_Disconnect],
                           Some (Some (ErrorString (''error open service '' @ Name ws))))
                 | None \<Rightarrow>
                     (case w_Delete w of
                        Some err \<Rightarrow>
                          ([mgr_Connect, mgr_OpenService (Name ws), Service_Delete,
                            Service_Close, mgr_Disconnect], Some (Some err))
                      | None \<Rightarrow>
                          (case w_eventlog_Remove w of
                             Some err \<Rightarrow>
                               if \<not> is_ERROR_FILE_NOT_FOUND err
                               then ([mgr_Connect, mgr_OpenService (Name ws), Service_Delete,
                                      eventlog_Remove (Name ws), Service_Close, mgr_Disconnect],
                                     Some (Some (ErrorString
                                       (''RemoveEventLogSource() failed: '' @
                                        Error (w_Error w) err))))
                               else calls_before
                                      [mgr_Connect, mgr_OpenService (Name ws), Service_Delete,
                                       eventlog_Remove (Name ws)]
                                      (deferred [Service_Close, mgr_Disconnect]
                                         (uninstallWait ws w))
                           | None \<Rightarrow>
                               calls_before
                                 [mgr_Connect, mgr_OpenService (Name ws), Service_Delete,
                                  eventlog_Remove (Name ws)]
                                 (deferred [Service_Close, mgr_Disconnect]
                                    (uninstallWait ws w)))))))"

section \<open>Install\<close>

definition StartType :: string where "StartType = ''StartType''"
definition ServiceStartManual :: string where "ServiceStartManual = ''manual''"
definition ServiceStartDisabled :: string where "ServiceStartDisabled = ''disabled''"
definition ServiceStartAutomatic :: string where "ServiceStartAutomatic = ''automatic''"
definition OnFailure :: string where "OnFailure = ''OnFailure''"
definition OnFailureRestart :: string where "OnFailureRestart = ''restart''"
definition OnFailureReboot :: string where "OnFailureReboot = ''reboot''"
definition OnFailureNoAction :: string where "OnFailureNoAction = ''noaction''"
definition OnFailureDelayDuration :: string where
  "OnFailureDelayDuration = ''OnFailureDelayDuration''"
definition OnFailureResetPeriod :: string where
  "OnFailureResetPeriod = ''OnFailureResetPeriod''"

text \<open>Constants of \<^verbatim>\<open>golang.org/x/sys/windows\<close> and its packages \<^verbatim>\<open>mgr\<close> and
  \<^verbatim>\<open>eventlog\<close>, with the values they have there.\<close>

definition mgr_StartAutomatic :: "32 word" where "mgr_StartAutomatic = 2"
definition mgr_StartManual :: "32 word" where "mgr_StartManual = 3"
definition mgr_StartDisabled :: "32 word" where "mgr_StartDisabled = 4"
definition mgr_NoAction :: int where "mgr_NoAction = 0"
definition mgr_ServiceRestart :: int where "mgr_ServiceRestart = 1"
definition mgr_ComputerReboot :: int where "mgr_ComputerReboot = 2"
definition SERVICE_WIN32_OWN_PROCESS :: "32 word" where "SERVICE_WIN32_OWN_PROCESS = 16"
definition SERVICE_INTERACTIVE_PROCESS :: "32 word" where "SERVICE_INTERACTIVE_PROCESS = 256"
definition eventlog_Error :: "32 word" where "eventlog_Error = 1"
definition eventlog_Warning :: "32 word" where "eventlog_Warning = 2"
definition eventlog_Info :: "32 word" where "eventlog_Info = 4"

text \<open>\<^verbatim>\<open>strings.Contains\<close>.\<close>

fun Contains :: "string \<Rightarrow> string \<Rightarrow> bool" where
  "Contains [] substr = (substr = [])"
| "Contains (c # s) substr = (prefix substr (c # s) \<or> Contains s substr)"

definition services_key :: "string \<Rightarrow> string" where
  "services_key name =
    ''SYSTEM'' @ [CHR 0x5C] @ ''CurrentControlSet'' @ [CHR 0x5C] @ ''Services'' @
    [CHR 0x5C] @ name"

definition setEnvironmentVariablesInRegistry ::
  "windowsService \<Rightarrow> world \<Rightarrow> call list \<times> error option" where
  "setEnvironmentVariablesInRegistry ws w =
    (if length (EnvVars ws) = 0 then ([], None)
     else
       (case w_CreateKey w of
          Some err \<Rightarrow>
            ([registry_CreateKey (services_key (Name ws))],
             Some (ErrorString (''failed creating env var registry key, err = '' @
                                Error (w_Error w) err)))
        | None \<Rightarrow>
            (let envStrings = map (\<lambda>(k, v). k @ ''='' @ v) (EnvVars ws) in
             case w_SetStringsValue w of
               Some err \<Rightarrow>
                 ([registry_CreateKey (services_key (Name ws)),
                   Key_SetStringsValue ''Environment'' envStrings],
                  Some (ErrorString (''failed setting env var registry key, err = '' @
                                     Error (w_Error w) err)))
             | None \<Rightarrow>
                 (case w_Key_Close w of
                    Some err \<Rightarrow>
                      ([registry_CreateKey (services_key (Name ws)),
                        Key_SetStringsValue ''Environment'' envStrings, Key_Close],
                       Some (ErrorString (''failed closing env var registry key, err = '' @
                                          Error (w_Error w) err)))
                  | None \<Rightarrow>
                      ([registry_CreateKey (services_key (Name ws)),
                        Key_SetStringsValue ''Environment'' envStrings, Key_Close],
                       None)))))"

text \<open>The configuration \<^verbatim>\<open>Install\<close> passes to \<^verbatim>\<open>m.CreateService\<close>.\<close>

definition Install_config :: "windowsService \<Rightarrow> mgr_Config" where
  "Install_config ws =
    (let opt = Option_string ws StartType ServiceStartAutomatic;
         startType =
           (if opt = ServiceStartAutomatic then mgr_StartAutomatic
            else if opt = ServiceStartManual then mgr_StartManual
            else if opt = ServiceStartDisabled then mgr_StartDisabled
            else 0);
         serviceType =
           (if Option_bool ws ''Interactive'' False
            then or SERVICE_WIN32_OWN_PROCESS SERVICE_INTERACTIVE_PROCESS
            else SERVICE_WIN32_OWN_PROCESS)
     in \<lparr>cfg_DisplayName = DisplayName ws,
         cfg_Description = Description ws,
         cfg_StartType = startType,
         cfg_ServiceStartName = UserName ws,
         cfg_Password = Option_string ws ''Password'' [],
         cfg_Dependencies = Dependencies ws,
         cfg_DelayedAutoStart = Option_bool ws ''DelayedAutoStart'' False,
         cfg_ServiceType = serviceType\<rparr>)"

text \<open>The part of \<^verbatim>\<open>Install\<close> from the recovery actions on: the service entry
  has been created, and only \<^verbatim>\<open>m.Disconnect\<close> is deferred so far.\<close>

definition Install_created :: "windowsService \<Rightarrow> world \<Rightarrow> call list \<times> error option" where
  "Install_created ws w =
    (let onFailure = Option_string ws OnFailure [];
         recovery =
           (if onFailure \<noteq> [] then
              (let delay =
                     (case w_ParseDuration w (Option_string ws OnFailureDelayDuration ''1s'') of
                        Some d \<Rightarrow> d
                      | None \<Rightarrow> 1 * Second);
                   actionType =
                     (if onFailure = OnFailureReboot then mgr_ComputerReboot
                      else if onFailure = OnFailureRestart then mgr_ServiceRestart
                      else if onFailure = OnFailureNoAction then mgr_NoAction
                      else mgr_ServiceRestart)
               in ([Service_SetRecoveryActions actionType delay
                      (word_of_int (Option_int ws OnFailureResetPeriod 10))],
                   w_SetRecoveryActions w))
            else ([], None))
     in case recovery of
          (tr, Some err) \<Rightarrow> (tr @ [mgr_Disconnect], Some err)
        | (tr, None) \<Rightarrow>
            (let register = eventlog_InstallAsEventCreate (Name ws)
                   (or (or eventlog_Error eventlog_Warning) eventlog_Info) in
             case w_InstallAsEventCreate w of
               Some err \<Rightarrow>
                 if \<not> Contains (Error (w_Error w) err) ''exists''
                 then (tr @ [register, Service_Delete, Service_Close, mgr_Disconnect],
                       Some (ErrorString (''SetupEventLogSource() failed: '' @
                                          Error (w_Error w) err)))
                 else (tr @ [register, Service_Close, mgr_Disconnect], None)
             | None \<Rightarrow> (tr @ [register, Service_Close, mgr_Disconnect], None)))"

definition Install :: "windowsService \<Rightarrow> world \<Rightarrow> call list \<times> error option" where
  "Install ws w =
    (case w_execPath w of
       Inl err \<Rightarrow> ([], Some err)
     | Inr exepath \<Rightarrow>
         (case w_Connect w of
            Some err \<Rightarrow> ([mgr_Connect], Some err)
          | None \<Rightarrow>
              (case setEnvironmentVariablesInRegistry ws w of
                 (env, Some err) \<Rightarrow> (mgr_Connect # env @ [mgr_Disconnect], Some err)
               | (env, None) \<Rightarrow>
                   (case w_mgr_OpenService w of
                      None \<Rightarrow>
                        (mgr_Connect # env @
                           [mgr_OpenService (Name ws), Service_Close, mgr_Disconnect],
                         Some (ErrorString (''service '' @ Name ws @ '' already exists'')))
                    | Some _ \<Rightarrow>
                        (let create = mgr_CreateService (Name ws) exepath
                               (Install_config ws) (Arguments ws) in
                         case w_CreateService w of
                           Some err \<Rightarrow>
                             (mgr_Connect # env @
                                [mgr_OpenService (Name ws), create, mgr_Disconnect],
                              Some err)
                         | None \<Rightarrow>
                             (case Install_created ws w of
                                (tr, res) \<Rightarrow>
                                  (mgr_Connect # env @
                                     [mgr_OpenService (Name ws), create] @ tr,
                                   res)))))))"

section \<open>Notions the properties of the dispatch loop are stated with\<close>

text \<open>A request that ends the loop: Stop or Shutdown.\<close>

definition terminating :: "ChangeRequest \<Rightarrow> bool" where
  "terminating c = (Cmd c = svc_Stop \<or> Cmd c = svc_Shutdown)"

text \<open>The events of requests that do not end the loop: an Interrogate is
  received and its \<^verbatim>\<open>CurrentStatus\<close> sent back as it is; any other request is
  received and nothing else happens.\<close>

fun idle_events :: "ChangeRequest list \<Rightarrow> event list" where
  "idle_events [] = []"
| "idle_events (c # r) =
    (if Cmd c = svc_Interrogate then [Recv c, Emit (CurrentStatus c)] else [Recv c])
      @ idle_events r"

text \<open>The events before the receive loop when \<^verbatim>\<open>Start\<close> succeeds.\<close>

definition start_events :: "event list" where
  "start_events =
    [Emit (status_of svc_StartPending 0), Call_Start None,
     Emit (status_of svc_Running cmdsAccepted)]"

text \<open>Projections of a trace: the value a callback returned, whether an event
  is a callback, the statuses sent, the requests received.\<close>

fun returned :: "event \<Rightarrow> error option" where
  "returned (Call_Start e) = e"
| "returned (Call_Stop e) = e"
| "returned (Call_Shutdown e) = e"
| "returned _ = None"

fun is_call :: "event \<Rightarrow> bool" where
  "is_call (Recv _) = False"
| "is_call (Emit _) = False"
| "is_call _ = True"

definition failed :: "event \<Rightarrow> bool" where
  "failed e = (returned e \<noteq> None)"


fun emitted :: "event \<Rightarrow> svc_Status list" where
  "emitted (Emit st) = [st]"
| "emitted _ = []"

definition emissions :: "event list \<Rightarrow> svc_Status list" where
  "emissions tr = concat (map emitted tr)"

fun received :: "event \<Rightarrow> ChangeRequest list" where
  "received (Recv c) = [c]"
| "received _ = []"

text \<open>The callback a Stop or Shutdown request leads to, with its result.\<close>

definition stop_call :: "windowsService \<Rightarrow> ChangeRequest \<Rightarrow> event" where
  "stop_call ws c =
    (if Cmd c = svc_Stop then Call_Stop (client_Stop (ws_i ws))
     else case client_Shutdown (ws_i ws) of
            Some res \<Rightarrow> Call_Shutdown res
          | None \<Rightarrow> Call_Stop (client_Stop (ws_i ws)))"


text \<open>The host's side of the Interrogate contract: every request carries, as
  its \<^verbatim>\<open>CurrentStatus\<close>, the status the service sent last.\<close>

fun echo_consistent :: "svc_Status option \<Rightarrow> event list \<Rightarrow> bool" where
  "echo_consistent cur [] = True"
| "echo_consistent cur (Emit st # tr) = echo_consistent (Some st) tr"
| "echo_consistent cur (Recv c # tr) =
     (Some (CurrentStatus c) = cur \<and> echo_consistent cur tr)"
| "echo_consistent cur (e # tr) = echo_consistent cur tr"

text \<open>Concrete values the theorems are instantiated at.\<close>

definition req :: "svc_Cmd \<Rightarrow> svc_Status \<Rightarrow> ChangeRequest" where
  "req cmd st = \<lparr>Cmd = cmd, EventType = 0, CurrentStatus = st\<rparr>"

definition running :: svc_Status where
  "running = status_of svc_Running cmdsAccepted"

definition a_client :: "error option \<Rightarrow> error option \<Rightarrow> error option option \<Rightarrow> Interface" where
  "a_client start stop shutdown =
    \<lparr>client_Start = start, client_Stop = stop, client_Shutdown = shutdown\<rparr>"

definition a_service :: "Interface \<Rightarrow> error option \<Rightarrow> windowsService" where
  "a_service cl e =
    \<lparr>Name = ''svc'', DisplayName = ''Service'', Description = ''a service'',
     UserName = [], Arguments = [], Dependencies = [], EnvVars = [],
     Option_string = (\<lambda>name default. default),
     Option_bool = (\<lambda>name default. default),
     Option_int = (\<lambda>name default. default),
     ws_i = cl, stopStartErr = e\<rparr>"

section \<open>Notions the properties of the manager operations are stated with\<close>

text \<open>\<open>polls n\<close>: \<open>n\<close> rounds of the stop wait, each a tick received and one
  status query. \<open>opens name n\<close>: \<open>n\<close> rounds of the uninstall wait in which
  the service could still be opened.\<close>

definition polls :: "nat \<Rightarrow> call list" where
  "polls n = concat (replicate n [Recv_tick, Service_Query])"

definition opens :: "string \<Rightarrow> nat \<Rightarrow> call list" where
  "opens name n = concat (replicate n [Recv_tick, mgr_OpenService name, Service_Close])"

definition stop_timeout_error :: "string \<Rightarrow> error" where
  "stop_timeout_error name = ErrorString (''stop service '' @ name @ '' timeout'')"

definition delete_timeout_error :: "string \<Rightarrow> error" where
  "delete_timeout_error name = ErrorString (''delete service '' @ name @ '' timeout'')"

text \<open>A status with the state Stopped was seen: in the answer to the stop
  control, or in the answer to a query made on a tick.\<close>

fun reports_Stopped :: "(error + svc_Status) select \<Rightarrow> bool" where
  "reports_Stopped (Tick (Inr st)) = (State st = svc_Stopped)"
| "reports_Stopped _ = False"

definition observed_Stopped :: "world \<Rightarrow> bool" where
  "observed_Stopped w =
    ((case w_Control w of Inr st \<Rightarrow> State st = svc_Stopped | Inl e \<Rightarrow> False) \<or>
     list_ex reports_Stopped (w_stopWait w))"

text \<open>A world in which every call succeeds, the service is stopping when
  asked to stop, and the registry gives a kill timeout of 5000 ms.\<close>

definition a_world :: world where
  "a_world =
    \<lparr>w_OpenSCManager = None, w_OpenService = None, w_Query = Inr running,
     w_Control = Inr (status_of svc_StopPending 0), w_Start = None, w_stopWait = [],
     w_OpenKey = None, w_GetStringValue = Inr ''5000'',
     w_Atoi = (\<lambda>s. if s = ''5000'' then Some 5000 else None),
     w_Connect = None, w_mgr_OpenService = None, w_Delete = None,
     w_eventlog_Remove = None, w_uninstallWait = [],
     w_execPath = Inr ''svc.exe'', w_CreateKey = None, w_SetStringsValue = None,
     w_Key_Close = None, w_CreateService = None, w_SetRecoveryActions = None,
     w_InstallAsEventCreate = None, w_ParseDuration = (\<lambda>s. None),
     w_Sprint = (\<lambda>st. ''{}''), w_Error = (\<lambda>e. ''access denied'')\<rparr>"

definition a_ws :: windowsService where
  "a_ws = a_service (a_client None None None) None"

section \<open>Notions the properties of Install are stated with\<close>

text \<open>The two calls of \<^verbatim>\<open>Install\<close> the property is about: the creation of the
  service entry, and the registration of the event-log source for errors,
  warnings and information (the three flags together are 7).\<close>

definition Install_create :: "windowsService \<Rightarrow> string \<Rightarrow> call" where
  "Install_create ws exepath =
     mgr_CreateService (Name ws) exepath (Install_config ws) (Arguments ws)"

definition Install_register :: "windowsService \<Rightarrow> call" where
  "Install_register ws = eventlog_InstallAsEventCreate (Name ws) 7"

section \<open>Properties of the dispatch loop\<close>

lemma after_after: "after es (after es' x) = after (es @ es') x"
  by (cases x) simp

lemma Execute_loop_idle:
  "\<not> list_ex terminating pre \<Longrightarrow>
   Execute_loop ws (pre @ r) = after (idle_events pre) (Execute_loop ws r)"
proof (induction pre)
  case Nil
  show ?case by (cases "Execute_loop ws r") simp
next
  case (Cons c pre)
  then show ?case
    by (simp add: terminating_def after_after)
qed

lemma Execute_loop_idle_only:
  "\<not> list_ex terminating r \<Longrightarrow> Execute_loop ws r = (idle_events r, ws, None)"
  using Execute_loop_idle[of r ws "[]"] by simp

lemma Execute_loop_terminating:
  "terminating c \<Longrightarrow>
   Execute_loop ws (c # post) =
     ([Recv c, Emit (status_of svc_StopPending 0), stop_call ws c],
      (case returned (stop_call ws c) of None \<Rightarrow> ws | Some e \<Rightarrow> setError ws (Some e)),
      Some (case returned (stop_call ws c) of None \<Rightarrow> (False, 0) | Some e \<Rightarrow> (True, 2)))"
  by (auto simp: terminating_def stop_call_def svc_consts split: option.splits)

lemma Execute_loop_first:
  assumes "\<not> list_ex terminating pre" "terminating c"
  shows "Execute_loop ws (pre @ c # post) =
     (idle_events pre @ [Recv c, Emit (status_of svc_StopPending 0), stop_call ws c],
      (case returned (stop_call ws c) of None \<Rightarrow> ws | Some e \<Rightarrow> setError ws (Some e)),
      Some (case returned (stop_call ws c) of None \<Rightarrow> (False, 0) | Some e \<Rightarrow> (True, 2)))"
  using assms
  by (simp add: Execute_loop_idle Execute_loop_terminating del: Execute_loop.simps)

lemma Execute_started:
  "client_Start (ws_i ws) = None \<Longrightarrow> Execute ws r = after start_events (Execute_loop ws r)"
  by (simp add: Execute_def start_events_def)

lemma first_terminating:
  "list_ex terminating r \<Longrightarrow>
   \<exists>pre c post. r = pre @ c # post \<and> \<not> list_ex terminating pre \<and> terminating c"
  using split_list_first_prop[of r terminating] by (auto simp: list_ex_iff)

lemma idle_no_calls: "filter is_call (idle_events r) = []"
  by (induction r) auto

lemma idle_not_call: "is_call e \<Longrightarrow> e \<notin> set (idle_events r)"
  using idle_no_calls[of r] by (auto simp: filter_empty_conv)

lemma failed_is_call: "failed e \<Longrightarrow> is_call e"
  by (cases e) (auto simp: failed_def)

lemma idle_not_failed: "\<not> list_ex failed (idle_events r)"
  using idle_not_call[of _ r] failed_is_call by (auto simp: list_ex_iff)

lemma idle_emissions:
  "emissions (idle_events r) = map CurrentStatus (filter (\<lambda>c. Cmd c = svc_Interrogate) r)"
  by (induction r) (auto simp: emissions_def)

lemma idle_received: "concat (map received (idle_events r)) = r"
  by (induction r) auto

lemma stop_call_cases:
  "(\<exists>x. stop_call ws c = Call_Stop x) \<or> (\<exists>x. stop_call ws c = Call_Shutdown x)"
  by (auto simp: stop_call_def split: option.splits)

text \<open>A run of \<^verbatim>\<open>Execute\<close> that returned either failed in \<^verbatim>\<open>Start\<close>, or
  handled its first Stop or Shutdown request.\<close>

lemma Execute_returned:
  assumes "Execute ws r = (tr, ws', Some res)"
  shows "(\<exists>e. client_Start (ws_i ws) = Some e \<and>
            tr = [Emit (status_of svc_StartPending 0), Call_Start (Some e)] \<and>
            ws' = setError ws (Some e) \<and> res = (True, 1)) \<or>
         (\<exists>pre c post. client_Start (ws_i ws) = None \<and> r = pre @ c # post \<and>
            \<not> list_ex terminating pre \<and> terminating c \<and>
            tr = start_events @ idle_events pre @
                 [Recv c, Emit (status_of svc_StopPending 0), stop_call ws c] \<and>
            ws' = (case returned (stop_call ws c) of None \<Rightarrow> ws
                   | Some e \<Rightarrow> setError ws (Some e)) \<and>
            res = (case returned (stop_call ws c) of None \<Rightarrow> (False, 0)
                   | Some e \<Rightarrow> (True, 2)))"
proof (cases "client_Start (ws_i ws)")
  case (Some e)
  with assms show ?thesis by (auto simp: Execute_def)
next
  case None
  with assms have ex: "after start_events (Execute_loop ws r) = (tr, ws', Some res)"
    by (simp add: Execute_started)
  have "list_ex terminating r"
  proof (rule ccontr)
    assume "\<not> list_ex terminating r"
    then have "Execute_loop ws r = (idle_events r, ws, None)"
      by (rule Execute_loop_idle_only)
    with ex show False by simp
  qed
  then obtain pre c post where
    split: "r = pre @ c # post" "\<not> list_ex terminating pre" "terminating c"
    using first_terminating by blast
  from ex show ?thesis
    unfolding split(1) Execute_loop_first[OF split(2,3)]
    using None split by auto
qed

subsection \<open>Requests other than Stop and Shutdown\<close>

text \<open>
  C8. On requests none of which is a Stop or a Shutdown, in any number and any
  mix, the receive loop does not return: having taken every one of them it is
  blocked in the receive, with the service value unchanged. Each Interrogate
  was answered by sending its \<^verbatim>\<open>CurrentStatus\<close> back as it came, every other
  request was received and ignored, and no client callback ran. The same holds
  of \<^verbatim>\<open>Execute\<close> as a whole once \<^verbatim>\<open>Start\<close> has succeeded.
\<close>

theorem Execute_loop_without_stop_blocks:
  assumes "\<forall>c \<in> set r. Cmd c \<noteq> svc_Stop \<and> Cmd c \<noteq> svc_Shutdown"
  shows "Execute_loop ws r = (idle_events r, ws, None) \<and>
         (client_Start (ws_i ws) = None \<longrightarrow>
            Execute ws r = (start_events @ idle_events r, ws, None)) \<and>
         concat (map received (idle_events r)) = r \<and>
         emissions (idle_events r) =
           map CurrentStatus (filter (\<lambda>c. Cmd c = svc_Interrogate) r) \<and>
         filter is_call (idle_events r) = []"
proof -
  from assms have idle: "\<not> list_ex terminating r"
    by (auto simp: list_ex_iff terminating_def)
  then have loop: "Execute_loop ws r = (idle_events r, ws, None)"
    by (rule Execute_loop_idle_only)
  then have "client_Start (ws_i ws) = None \<longrightarrow>
      Execute ws r = (start_events @ idle_events r, ws, None)"
    by (simp add: Execute_started)
  with loop show ?thesis
    by (simp add: idle_received idle_emissions idle_no_calls)
qed

theorem Execute_loop_without_stop_blocks_witness:
  "Execute (a_service (a_client None None None) None)
     [req svc_Interrogate running, req 2 running, req svc_Interrogate running] =
   (start_events @
    [Recv (req svc_Interrogate running), Emit running,
     Recv (req 2 running),
     Recv (req svc_Interrogate running), Emit running],
    a_service (a_client None None None) None, None)"
  using Execute_loop_without_stop_blocks
    [of "[req svc_Interrogate running, req 2 running, req svc_Interrogate running]"
        "a_service (a_client None None None) None"]
  by (simp add: req_def a_service_def a_client_def svc_consts)

subsection \<open>The value returned to the host\<close>

text \<open>
  C9. When \<^verbatim>\<open>Execute\<close> returns, the pair (svcSpecificEC, exitCode) is one of
  (false, 0), (true, 1), (true, 2): it is (true, 1) exactly when \<^verbatim>\<open>Start\<close>
  returned an error, (true, 2) exactly when the Stop or Shutdown callback
  returned an error, and (false, 0) exactly when a Stop or Shutdown request was
  received and the callback it led to, the last event of the run, returned no
  error. So the exit code is not zero if and only if a callback failed.
\<close>

theorem Execute_exit_code:
  assumes "Execute ws r = (tr, ws', Some (svcSpecificEC, exitCode))"
  shows "((svcSpecificEC, exitCode) = (False, 0) \<or> (svcSpecificEC, exitCode) = (True, 1) \<or>
          (svcSpecificEC, exitCode) = (True, 2)) \<and>
         ((svcSpecificEC, exitCode) = (True, 1) \<longleftrightarrow> (\<exists>e. Call_Start (Some e) \<in> set tr)) \<and>
         ((svcSpecificEC, exitCode) = (True, 2) \<longleftrightarrow>
            (\<exists>e. Call_Stop (Some e) \<in> set tr \<or> Call_Shutdown (Some e) \<in> set tr)) \<and>
         ((svcSpecificEC, exitCode) = (False, 0) \<longleftrightarrow>
            (\<exists>c. Recv c \<in> set tr \<and> terminating c) \<and>
            (last tr = Call_Stop None \<or> last tr = Call_Shutdown None)) \<and>
         (exitCode \<noteq> 0 \<longleftrightarrow> list_ex failed tr)"
proof -
  from Execute_returned[OF assms]
  consider
    (start) e where "tr = [Emit (status_of svc_StartPending 0), Call_Start (Some e)]"
      "(svcSpecificEC, exitCode) = (True, 1)"
  | (stop) pre c where "terminating c"
      "tr = start_events @ idle_events pre @
            [Recv c, Emit (status_of svc_StopPending 0), stop_call ws c]"
      "(svcSpecificEC, exitCode) =
         (case returned (stop_call ws c) of None \<Rightarrow> (False, 0) | Some e \<Rightarrow> (True, 2))"
    by blast
  then show ?thesis
  proof cases
    case start
    then show ?thesis by (auto simp: failed_def)
  next
    case stop
    have idle: "\<And>x. Call_Start x \<notin> set (idle_events pre)"
      "\<And>x. Call_Stop x \<notin> set (idle_events pre)"
      "\<And>x. Call_Shutdown x \<notin> set (idle_events pre)"
      "\<not> list_ex failed (idle_events pre)"
      using idle_not_call[of _ pre] idle_not_failed[of pre] by auto
    from stop_call_cases[of ws c] show ?thesis
    proof (elim disjE exE)
      fix x assume "stop_call ws c = Call_Stop x"
      with stop idle show ?thesis
        by (cases x) (auto simp: start_events_def failed_def list_ex_iff)
    next
      fix x assume "stop_call ws c = Call_Shutdown x"
      with stop idle show ?thesis
        by (cases x) (auto simp: start_events_def failed_def list_ex_iff)
    qed
  qed
qed

theorem Execute_exit_code_witness:
  "Execute (a_service (a_client None (Some (Errno 5)) None) None) [req svc_Stop running] =
     (start_events @
      [Recv (req svc_Stop running), Emit (status_of svc_StopPending 0),
       Call_Stop (Some (Errno 5))],
      a_service (a_client None (Some (Errno 5)) None) (Some (Errno 5)), Some (True, 2)) \<and>
   list_ex failed
     (start_events @
      [Recv (req svc_Stop running), Emit (status_of svc_StopPending 0),
       Call_Stop (Some (Errno 5))])"
proof -
  have run: "Execute (a_service (a_client None (Some (Errno 5)) None) None)
      [req svc_Stop running] =
     (start_events @
      [Recv (req svc_Stop running), Emit (status_of svc_StopPending 0),
       Call_Stop (Some (Errno 5))],
      a_service (a_client None (Some (Errno 5)) None) (Some (Errno 5)), Some (True, 2))"
    by (simp add: Execute_def start_events_def req_def a_service_def a_client_def
        setError_def svc_consts)
  from Execute_exit_code[OF run] run show ?thesis by simp
qed

lemma emissions_append: "emissions (xs @ ys) = emissions xs @ emissions ys"
  by (simp add: emissions_def)

lemma emitted_stop_call: "emitted (stop_call ws c) = []"
  using stop_call_cases[of ws c] by auto

lemma takeWhile_first_terminating:
  "\<not> list_ex terminating pre \<Longrightarrow> terminating c \<Longrightarrow>
   takeWhile (\<lambda>c. \<not> terminating c) (pre @ c # post) = pre"
  by (induction pre) auto

lemma takeWhile_no_terminating:
  "\<not> list_ex terminating r \<Longrightarrow> takeWhile (\<lambda>c. \<not> terminating c) r = r"
  by (induction r) auto

lemma echo_consistent_prefix:
  "echo_consistent cur (xs @ ys) \<Longrightarrow> echo_consistent cur xs"
  by (induction cur xs rule: echo_consistent.induct) auto

lemma idle_states:
  "echo_consistent (Some running) (idle_events r) \<Longrightarrow>
   map State (emissions (idle_events r)) =
     replicate (length (filter (\<lambda>c. Cmd c = svc_Interrogate) r)) svc_Running"
proof (induction r)
  case Nil
  show ?case by (simp add: emissions_def)
next
  case (Cons c r)
  then show ?case
    by (auto simp: emissions_def running_def status_of_def)
qed

lemma Execute_emissions:
  "emissions (fst (Execute ws r)) =
     status_of svc_StartPending 0 #
     (case client_Start (ws_i ws) of
        Some e \<Rightarrow> []
      | None \<Rightarrow>
          status_of svc_Running cmdsAccepted #
          map CurrentStatus
            (filter (\<lambda>c. Cmd c = svc_Interrogate) (takeWhile (\<lambda>c. \<not> terminating c) r)) @
          (if list_ex terminating r then [status_of svc_StopPending 0] else []))"
proof (cases "client_Start (ws_i ws)")
  case (Some e)
  then show ?thesis by (simp add: Execute_def emissions_def)
next
  case None
  show ?thesis
  proof (cases "list_ex terminating r")
    case False
    with None show ?thesis
      by (simp add: Execute_started Execute_loop_idle_only emissions_append idle_emissions
          takeWhile_no_terminating) (simp add: emissions_def start_events_def)
  next
    case True
    then obtain pre c post where
      split: "r = pre @ c # post" "\<not> list_ex terminating pre" "terminating c"
      using first_terminating by blast
    have "list_ex terminating (pre @ c # post)" using split(3) by simp
    with None split(2,3) show ?thesis
      unfolding split(1)
      by (simp add: Execute_started Execute_loop_first emissions_append idle_emissions
          takeWhile_first_terminating del: Execute_loop.simps)
        (simp add: emissions_def start_events_def emitted_stop_call)
  qed
qed


lemma Execute_states:
  assumes "echo_consistent None (fst (Execute ws r))"
  shows "map State (emissions (fst (Execute ws r))) =
     svc_StartPending #
     (case client_Start (ws_i ws) of
        Some e \<Rightarrow> []
      | None \<Rightarrow>
          replicate
            (Suc (length (filter (\<lambda>c. Cmd c = svc_Interrogate)
                            (takeWhile (\<lambda>c. \<not> terminating c) r))))
            svc_Running @
          (if list_ex terminating r then [svc_StopPending] else []))"
proof (cases "client_Start (ws_i ws)")
  case (Some e)
  then show ?thesis by (simp add: Execute_emissions status_of_def)
next
  case None
  let ?h = "takeWhile (\<lambda>c. \<not> terminating c) r"
  have "\<exists>rest. fst (Execute ws r) = start_events @ idle_events ?h @ rest"
  proof (cases "list_ex terminating r")
    case False
    with None show ?thesis
      by (simp add: Execute_started Execute_loop_idle_only takeWhile_no_terminating)
  next
    case True
    then obtain pre c post where
      split: "r = pre @ c # post" "\<not> list_ex terminating pre" "terminating c"
      using first_terminating by blast
    with None show ?thesis
      unfolding split(1)
      by (simp add: Execute_started Execute_loop_first takeWhile_first_terminating
          del: Execute_loop.simps)
  qed
  then obtain rest where tr: "fst (Execute ws r) = start_events @ idle_events ?h @ rest"
    by blast
  from assms have "echo_consistent (Some running) (idle_events ?h @ rest)"
    unfolding tr by (simp add: start_events_def running_def)
  then have "echo_consistent (Some running) (idle_events ?h)"
    by (rule echo_consistent_prefix)
  then have "map State (map CurrentStatus (filter (\<lambda>c. Cmd c = svc_Interrogate) ?h)) =
      replicate (length (filter (\<lambda>c. Cmd c = svc_Interrogate) ?h)) svc_Running"
    using idle_states[of ?h] by (simp only: idle_emissions)
  with None show ?thesis
    by (simp add: Execute_emissions status_of_def)
qed

subsection \<open>The order of the status emissions\<close>

text \<open>
  C1, as the code has it. The statuses \<^verbatim>\<open>Execute\<close> sends are, in this order:
  StartPending; then, only if \<^verbatim>\<open>Start\<close> returned no error, Running with the
  accepted commands; then the answers to the Interrogate requests handled
  before the first Stop or Shutdown request, each the \<^verbatim>\<open>CurrentStatus\<close> of
  its request, sent back unchecked; then, only if a Stop or Shutdown request
  came, StopPending, which is the last. In the runs in which every request
  carries the status the service sent last, the states sent are StartPending,
  Running (once and once more per Interrogate), StopPending: none is out of
  order and none is left out. In every run in which \<^verbatim>\<open>Start\<close> succeeded, a
  Stop request, the first terminating one, is followed by exactly one
  StopPending emission, then the call of the client's \<^verbatim>\<open>Stop\<close>, and with
  the return of that call \<^verbatim>\<open>Execute\<close> returns, whether the call failed or
  not; requests behind it are not received.
\<close>

theorem Execute_emission_order:
  "emissions (fst (Execute ws r)) =
     status_of svc_StartPending 0 #
     (case client_Start (ws_i ws) of
        Some e \<Rightarrow> []
      | None \<Rightarrow>
          status_of svc_Running cmdsAccepted #
          map CurrentStatus
            (filter (\<lambda>c. Cmd c = svc_Interrogate) (takeWhile (\<lambda>c. \<not> terminating c) r)) @
          (if list_ex terminating r then [status_of svc_StopPending 0] else [])) \<and>
   (echo_consistent None (fst (Execute ws r)) \<longrightarrow>
      map State (emissions (fst (Execute ws r))) =
        svc_StartPending #
        (case client_Start (ws_i ws) of
           Some e \<Rightarrow> []
         | None \<Rightarrow>
             replicate
               (Suc (length (filter (\<lambda>c. Cmd c = svc_Interrogate)
                               (takeWhile (\<lambda>c. \<not> terminating c) r))))
               svc_Running @
             (if list_ex terminating r then [svc_StopPending] else []))) \<and>
   (\<forall>pre c post.
      client_Start (ws_i ws) = None \<and> r = pre @ c # post \<and>
      \<not> list_ex terminating pre \<and> Cmd c = svc_Stop \<longrightarrow>
      Execute ws r =
        (start_events @ idle_events pre @
           [Recv c, Emit (status_of svc_StopPending 0), Call_Stop (client_Stop (ws_i ws))],
         (case client_Stop (ws_i ws) of None \<Rightarrow> ws | Some e \<Rightarrow> setError ws (Some e)),
         Some (case client_Stop (ws_i ws) of None \<Rightarrow> (False, 0) | Some e \<Rightarrow> (True, 2))))"
proof (intro conjI allI impI)
  show "emissions (fst (Execute ws r)) =
     status_of svc_StartPending 0 #
     (case client_Start (ws_i ws) of
        Some e \<Rightarrow> []
      | None \<Rightarrow>
          status_of svc_Running cmdsAccepted #
          map CurrentStatus
            (filter (\<lambda>c. Cmd c = svc_Interrogate) (takeWhile (\<lambda>c. \<not> terminating c) r)) @
          (if list_ex terminating r then [status_of svc_StopPending 0] else []))"
    by (rule Execute_emissions)
next
  assume "echo_consistent None (fst (Execute ws r))"
  then show "map State (emissions (fst (Execute ws r))) =
        svc_StartPending #
        (case client_Start (ws_i ws) of
           Some e \<Rightarrow> []
         | None \<Rightarrow>
             replicate
               (Suc (length (filter (\<lambda>c. Cmd c = svc_Interrogate)
                               (takeWhile (\<lambda>c. \<not> terminating c) r))))
               svc_Running @
             (if list_ex terminating r then [svc_StopPending] else []))"
    by (rule Execute_states)
next
  fix pre c post
  assume a: "client_Start (ws_i ws) = None \<and> r = pre @ c # post \<and>
      \<not> list_ex terminating pre \<and> Cmd c = svc_Stop"
  then have "terminating c" and call: "stop_call ws c = Call_Stop (client_Stop (ws_i ws))"
    by (simp_all add: terminating_def stop_call_def)
  with a show "Execute ws r =
        (start_events @ idle_events pre @
           [Recv c, Emit (status_of svc_StopPending 0), Call_Stop (client_Stop (ws_i ws))],
         (case client_Stop (ws_i ws) of None \<Rightarrow> ws | Some e \<Rightarrow> setError ws (Some e)),
         Some (case client_Stop (ws_i ws) of None \<Rightarrow> (False, 0) | Some e \<Rightarrow> (True, 2)))"
    by (simp add: Execute_started Execute_loop_first del: Execute_loop.simps)
qed

theorem Execute_emission_order_witness:
  "Execute (a_service (a_client None None None) None)
     [req svc_Interrogate running, req svc_Stop running, req svc_Interrogate running] =
     (start_events @
      [Recv (req svc_Interrogate running), Emit running,
       Recv (req svc_Stop running), Emit (status_of svc_StopPending 0), Call_Stop None],
      a_service (a_client None None None) None, Some (False, 0)) \<and>
   map State (emissions (fst (Execute (a_service (a_client None None None) None)
     [req svc_Interrogate running, req svc_Stop running, req svc_Interrogate running]))) =
     [svc_StartPending, svc_Running, svc_Running, svc_StopPending]"
proof -
  let ?ws = "a_service (a_client None None None) None"
  let ?r = "[req svc_Interrogate running, req svc_Stop running, req svc_Interrogate running]"
  note inst = Execute_emission_order[of ?ws ?r]
  have start: "client_Start (ws_i ?ws) = None" and stop: "client_Stop (ws_i ?ws) = None"
    by (simp_all add: a_service_def a_client_def)
  have pre: "\<not> list_ex terminating [req svc_Interrogate running]"
    by (simp add: terminating_def req_def svc_consts)
  have run: "Execute ?ws ?r =
     (start_events @
      [Recv (req svc_Interrogate running), Emit running,
       Recv (req svc_Stop running), Emit (status_of svc_StopPending 0), Call_Stop None],
      ?ws, Some (False, 0))"
    using inst[THEN conjunct2, THEN conjunct2, rule_format,
        of "[req svc_Interrogate running]" "req svc_Stop running"
           "[req svc_Interrogate running]"]
      start stop pre
    by (simp add: req_def)
  have "echo_consistent None (fst (Execute ?ws ?r))"
    unfolding run by (simp add: start_events_def running_def req_def)
  with inst[THEN conjunct2, THEN conjunct1] 
  have "map State (emissions (fst (Execute ?ws ?r))) =
     [svc_StartPending, svc_Running, svc_Running, svc_StopPending]"
    using start by (simp add: terminating_def req_def svc_consts)
  with run show ?thesis by simp
qed

text \<open>A run on one Interrogate request whose \<^verbatim>\<open>CurrentStatus\<close> has the state
  StopPending: the states sent are StartPending, Running, StopPending, with no
  Stop or Shutdown request, and \<^verbatim>\<open>Execute\<close> has not returned.\<close>

theorem Execute_echo_out_of_order:
  "Execute a_ws [req svc_Interrogate (status_of svc_StopPending 0)] =
     (start_events @
      [Recv (req svc_Interrogate (status_of svc_StopPending 0)),
       Emit (status_of svc_StopPending 0)],
      a_ws, None) \<and>
   map State (emissions
     (fst (Execute a_ws [req svc_Interrogate (status_of svc_StopPending 0)]))) =
     [svc_StartPending, svc_Running, svc_StopPending] \<and>
   \<not> list_ex terminating [req svc_Interrogate (status_of svc_StopPending 0)]"
  by (simp add: Execute_def start_events_def req_def a_ws_def a_service_def a_client_def
      emissions_def status_of_def terminating_def svc_consts)

lemma Execute_first_terminating:
  assumes "client_Start (ws_i ws) = None" "\<not> list_ex terminating pre" "terminating c"
  shows "Execute ws (pre @ c # post) =
     (start_events @ idle_events pre @
        [Recv c, Emit (status_of svc_StopPending 0), stop_call ws c],
      (case returned (stop_call ws c) of None \<Rightarrow> ws | Some e \<Rightarrow> setError ws (Some e)),
      Some (case returned (stop_call ws c) of None \<Rightarrow> (False, 0) | Some e \<Rightarrow> (True, 2)))"
  using assms by (simp add: Execute_started Execute_loop_first del: Execute_loop.simps)

subsection \<open>Shutdown requests\<close>

text \<open>
  C4. When \<^verbatim>\<open>Start\<close> has succeeded and a Shutdown request is the first
  terminating request, \<^verbatim>\<open>Execute\<close> sends StopPending and then calls the
  client's \<^verbatim>\<open>Shutdown\<close> if the client has one, and the client's \<^verbatim>\<open>Stop\<close>
  otherwise. Beside \<^verbatim>\<open>Start\<close> this is the only callback of the whole run, so
  one of the two is called once and the other never. If the call returns an
  error, the error is stored in \<^verbatim>\<open>stopStartErr\<close> and \<^verbatim>\<open>Execute\<close> returns
  (true, 2).
\<close>

theorem Execute_Shutdown_request:
  assumes "client_Start (ws_i ws) = None" "\<not> list_ex terminating pre"
    "Cmd c = svc_Shutdown"
  shows "let call = (case client_Shutdown (ws_i ws) of
                       Some res \<Rightarrow> Call_Shutdown res
                     | None \<Rightarrow> Call_Stop (client_Stop (ws_i ws)))
         in Execute ws (pre @ c # post) =
              (start_events @ idle_events pre @
                 [Recv c, Emit (status_of svc_StopPending 0), call],
               (case returned call of None \<Rightarrow> ws | Some e \<Rightarrow> setError ws (Some e)),
               Some (case returned call of None \<Rightarrow> (False, 0) | Some e \<Rightarrow> (True, 2))) \<and>
            filter is_call (fst (Execute ws (pre @ c # post))) = [Call_Start None, call] \<and>
            (\<forall>e. returned call = Some e \<longrightarrow>
               getError (fst (snd (Execute ws (pre @ c # post)))) = Some e \<and>
               snd (snd (Execute ws (pre @ c # post))) = Some (True, 2))"
proof -
  from assms(3) have t: "terminating c"
    and call: "stop_call ws c = (case client_Shutdown (ws_i ws) of
                       Some res \<Rightarrow> Call_Shutdown res
                     | None \<Rightarrow> Call_Stop (client_Stop (ws_i ws)))"
    by (simp_all add: terminating_def stop_call_def svc_consts)
  have c: "is_call (stop_call ws c)"
    using stop_call_cases[of ws c] by auto
  note run = Execute_first_terminating[OF assms(1,2) t, of post]
  have "filter is_call (fst (Execute ws (pre @ c # post))) = [Call_Start None, stop_call ws c]"
    unfolding run using c by (simp add: idle_no_calls start_events_def)
  moreover have "\<forall>e. returned (stop_call ws c) = Some e \<longrightarrow>
               getError (fst (snd (Execute ws (pre @ c # post)))) = Some e \<and>
               snd (snd (Execute ws (pre @ c # post))) = Some (True, 2)"
    unfolding run by (simp add: getError_def setError_def)
  ultimately show ?thesis
    using run unfolding call Let_def by blast
qed

theorem Execute_Shutdown_request_witness:
  "Execute (a_service (a_client None None (Some (Some (Errno 5)))) None)
     [req svc_Interrogate running, req svc_Shutdown running] =
     (start_events @
      [Recv (req svc_Interrogate running), Emit running,
       Recv (req svc_Shutdown running), Emit (status_of svc_StopPending 0),
       Call_Shutdown (Some (Errno 5))],
      a_service (a_client None None (Some (Some (Errno 5)))) (Some (Errno 5)),
      Some (True, 2)) \<and>
   filter is_call (fst (Execute (a_service (a_client None None (Some (Some (Errno 5)))) None)
     [req svc_Interrogate running, req svc_Shutdown running])) =
     [Call_Start None, Call_Shutdown (Some (Errno 5))]"
proof -
  let ?ws = "a_service (a_client None None (Some (Some (Errno 5)))) None"
  have start: "client_Start (ws_i ?ws) = None"
    by (simp add: a_service_def a_client_def)
  have pre: "\<not> list_ex terminating [req svc_Interrogate running]"
    by (simp add: terminating_def req_def svc_consts)
  have cmd: "Cmd (req svc_Shutdown running) = svc_Shutdown"
    by (simp add: req_def)
  from Execute_Shutdown_request[OF start pre cmd, of "[]"] show ?thesis
    by (simp add: Let_def a_service_def a_client_def setError_def req_def start_events_def)
qed


subsection \<open>The error Run returns\<close>



section \<open>Properties of the manager operations\<close>

declare stopWait_loop.simps [simp del]

text \<open>The kill timeout is 20 seconds unless the registry key opens, the value
  is read and \<^verbatim>\<open>strconv.Atoi\<close> accepts it; then it is that many milliseconds.\<close>

lemma getStopTimeout_default:
  "w_OpenKey w \<noteq> None \<or> (\<exists>e. w_GetStringValue w = Inl e) \<or>
   (\<exists>sv. w_GetStringValue w = Inr sv \<and> w_Atoi w sv = None) \<Longrightarrow>
   getStopTimeout w = 20000 * Millisecond"
  by (auto simp: getStopTimeout_def Let_def mult.commute split: option.splits sum.splits)

lemma getStopTimeout_configured:
  "w_OpenKey w = None \<Longrightarrow> w_GetStringValue w = Inr sv \<Longrightarrow> w_Atoi w sv = Some v \<Longrightarrow>
   getStopTimeout w = Millisecond * word_of_int v"
  by (simp add: getStopTimeout_def)

lemma calls_before_calls_before:
  "calls_before cs (calls_before cs' x) = calls_before (cs @ cs') x"
  by (cases x) simp

lemma calls_before_Nil: "calls_before [] x = x"
  by (cases x) simp

lemma fst_calls_before: "fst (calls_before cs x) = cs @ fst x"
  by (cases x) simp

lemma snd_calls_before: "snd (calls_before cs x) = snd x"
  by (cases x) simp

lemma fst_deferred_subset: "set (fst (deferred cs x)) \<subseteq> set (fst x) \<union> set cs"
  by (cases x; cases "snd x") auto

lemma snd_deferred: "snd (deferred cs x) = snd x"
  by (cases x; cases "snd x") auto

lemma stopWait_loop_Stopped:
  "State st = svc_Stopped \<Longrightarrow> stopWait_loop name st sel = ([], Some None)"
  by (simp add: stopWait_loop.simps)

lemma stopWait_loop_blocked:
  "State st \<noteq> svc_Stopped \<Longrightarrow> stopWait_loop name st [] = ([], None)"
  by (simp add: stopWait_loop.simps)

lemma stopWait_loop_Timeout:
  "State st \<noteq> svc_Stopped \<Longrightarrow>
   stopWait_loop name st (Timeout # sel) = ([Recv_timeout], Some (Some (stop_timeout_error name)))"
  by (simp add: stopWait_loop.simps stop_timeout_error_def)

lemma stopWait_loop_Query_error:
  "State st \<noteq> svc_Stopped \<Longrightarrow>
   stopWait_loop name st (Tick (Inl e) # sel) = ([Recv_tick, Service_Query], Some (Some e))"
  by (simp add: stopWait_loop.simps)

lemma stopWait_loop_Tick:
  "State st \<noteq> svc_Stopped \<Longrightarrow>
   stopWait_loop name st (Tick (Inr st') # sel) =
     calls_before [Recv_tick, Service_Query] (stopWait_loop name st' sel)"
  by (simp add: stopWait_loop.simps)

lemma polls_Suc: "polls (Suc n) = [Recv_tick, Service_Query] @ polls n"
  by (simp add: polls_def)

lemma count_polls: "length (filter (\<lambda>c. c = Service_Query) (polls n)) = n"
  by (induction n) (simp_all add: polls_def)

text \<open>While the statuses polled are not Stopped the loop goes on polling.\<close>

lemma stopWait_loop_polls:
  assumes "State st \<noteq> svc_Stopped" "\<forall>s \<in> set sts. State s \<noteq> svc_Stopped"
  shows "stopWait_loop name st (map (\<lambda>s. Tick (Inr s)) sts @ rest) =
         calls_before (polls (length sts)) (stopWait_loop name (last (st # sts)) rest)"
  using assms
proof (induction sts arbitrary: st)
  case Nil
  show ?case by (simp add: polls_def calls_before_Nil)
next
  case (Cons s sts)
  then show ?case
    by (simp add: stopWait_loop_Tick polls_Suc calls_before_calls_before)
qed

lemma last_not_Stopped:
  "State st \<noteq> svc_Stopped \<Longrightarrow> \<forall>s \<in> set sts. State s \<noteq> svc_Stopped \<Longrightarrow>
   State (last (st # sts)) \<noteq> svc_Stopped"
  by (induction sts arbitrary: st) auto

text \<open>The results of the loop, and what success means.\<close>

lemma stopWait_loop_outcomes:
  "snd (stopWait_loop name st sel) = None \<or>
   snd (stopWait_loop name st sel) = Some None \<or>
   snd (stopWait_loop name st sel) = Some (Some (stop_timeout_error name)) \<or>
   (\<exists>e. Tick (Inl e) \<in> set sel \<and> snd (stopWait_loop name st sel) = Some (Some e))"
proof (induction sel arbitrary: st)
  case Nil
  show ?case by (cases "State st = svc_Stopped") (simp_all add: stopWait_loop.simps)
next
  case (Cons q sel)
  show ?case
  proof (cases "State st = svc_Stopped")
    case True
    then show ?thesis by (simp add: stopWait_loop_Stopped)
  next
    case False
    show ?thesis
    proof (cases q)
      case Timeout
      with False show ?thesis by (simp add: stopWait_loop_Timeout)
    next
      case (Tick x)
      show ?thesis
      proof (cases x)
        case (Inl e)
        with Tick False show ?thesis by (simp add: stopWait_loop_Query_error)
      next
        case (Inr st')
        obtain tr res where r: "stopWait_loop name st' sel = (tr, res)"
          by (cases "stopWait_loop name st' sel")
        with Cons[of st'] Tick Inr False show ?thesis
          by (auto simp: stopWait_loop_Tick)
      qed
    qed
  qed
qed

lemma stopWait_loop_converged:
  "snd (stopWait_loop name st sel) = Some None \<Longrightarrow>
   State st = svc_Stopped \<or> list_ex reports_Stopped sel"
proof (induction sel arbitrary: st)
  case Nil
  then show ?case by (simp add: stopWait_loop.simps split: if_splits)
next
  case (Cons q sel)
  show ?case
  proof (cases "State st = svc_Stopped")
    case True
    then show ?thesis by simp
  next
    case False
    show ?thesis
    proof (cases q)
      case Timeout
      with False Cons.prems show ?thesis by (simp add: stopWait_loop_Timeout)
    next
      case (Tick x)
      show ?thesis
      proof (cases x)
        case (Inl e)
        with Tick False Cons.prems show ?thesis by (simp add: stopWait_loop_Query_error)
      next
        case (Inr st')
        with Tick False Cons.prems have "snd (stopWait_loop name st' sel) = Some None"
          by (simp add: stopWait_loop_Tick snd_calls_before)
        from Cons.IH[OF this] Tick Inr show ?thesis by auto
      qed
    qed
  qed
qed

lemma stopWait_converged:
  "snd (stopWait ws w) = Some None \<Longrightarrow> observed_Stopped w"
proof (cases "w_Control w")
  case (Inl e)
  assume "snd (stopWait ws w) = Some None"
  with Inl show ?thesis by (simp add: stopWait_def)
next
  case (Inr st)
  assume "snd (stopWait ws w) = Some None"
  with Inr have "snd (stopWait_loop (Name ws) st (w_stopWait w)) = Some None"
    by (simp add: stopWait_def Let_def snd_calls_before snd_deferred)
  from stopWait_loop_converged[OF this] Inr show ?thesis
    by (simp add: observed_Stopped_def)
qed

lemma Service_Start_notin_stopWait_loop:
  "Service_Start \<notin> set (fst (stopWait_loop name st sel))"
proof (induction sel arbitrary: st)
  case Nil
  show ?case by (simp add: stopWait_loop.simps)
next
  case (Cons q sel)
  show ?case
  proof (cases "State st = svc_Stopped")
    case True
    then show ?thesis by (simp add: stopWait_loop_Stopped)
  next
    case False
    show ?thesis
    proof (cases q)
      case Timeout
      with False show ?thesis by (simp add: stopWait_loop_Timeout)
    next
      case (Tick x)
      show ?thesis
      proof (cases x)
        case (Inl e)
        with Tick False show ?thesis by (simp add: stopWait_loop_Query_error)
      next
        case (Inr st')
        obtain tr res where r: "stopWait_loop name st' sel = (tr, res)"
          by (cases "stopWait_loop name st' sel")
        with Cons[of st'] Tick Inr False show ?thesis
          by (simp add: stopWait_loop_Tick)
      qed
    qed
  qed
qed

lemma Service_Start_notin_stopWait: "Service_Start \<notin> set (fst (stopWait ws w))"
proof (cases "w_Control w")
  case (Inl e)
  then show ?thesis by (simp add: stopWait_def)
next
  case (Inr st)
  have "set (fst (deferred [Ticker_Stop] (stopWait_loop (Name ws) st (w_stopWait w)))) \<subseteq>
      set (fst (stopWait_loop (Name ws) st (w_stopWait w))) \<union> {Ticker_Stop}"
    using fst_deferred_subset[of "[Ticker_Stop]"] by simp
  with Service_Start_notin_stopWait_loop[of "Name ws" st "w_stopWait w"] Inr
  show ?thesis
    by (auto simp: stopWait_def Let_def fst_calls_before)
qed

lemma Stop_opened:
  assumes "w_OpenSCManager w = None" "w_OpenService w = None" "w_Control w = Inr st0"
  shows "Stop ws w =
     calls_before
       [OpenSCManager, OpenService (Name ws), Service_Control svc_Stop,
        time_After (getStopTimeout w + Millisecond * 50 * 2),
        time_NewTicker (Millisecond * 50)]
       (deferred [Ticker_Stop, Service_Close, mgr_Disconnect]
          (stopWait_loop (Name ws) st0 (w_stopWait w)))"
proof -
  obtain tr res where l: "stopWait_loop (Name ws) st0 (w_stopWait w) = (tr, res)"
    by (cases "stopWait_loop (Name ws) st0 (w_stopWait w)")
  with assms show ?thesis
    by (cases res) (simp_all add: Stop_def stopWait_def Let_def)
qed

lemma Restart_opened:
  assumes "w_OpenSCManager w = None" "w_OpenService w = None"
  shows "Restart ws w =
     calls_before [OpenSCManager, OpenService (Name ws)]
       (deferred [Service_Close, mgr_Disconnect]
          (case snd (stopWait ws w) of
             None \<Rightarrow> (fst (stopWait ws w), None)
           | Some (Some err) \<Rightarrow> (fst (stopWait ws w), Some (Some err))
           | Some None \<Rightarrow> (fst (stopWait ws w) @ [Service_Start], Some (w_Start w))))"
  using assms by (cases "stopWait ws w") (auto simp: Restart_def split: option.splits)

subsection \<open>Status\<close>

text \<open>
  C5. When the manager can be opened: a queried raw state StartPending or
  Running is reported as \<open>StatusRunning\<close>; PausePending, Paused,
  ContinuePending, StopPending and Stopped are reported as \<open>StatusStopped\<close>;
  any other raw state gives \<open>StatusUnknown\<close> with an "unknown status" error;
  and when opening the service fails because it does not exist (errno 1060),
  \<^verbatim>\<open>Status\<close> gives \<open>StatusUnknown\<close> with \<open>ErrNotInstalled\<close>.
\<close>

theorem Status_collapse:
  assumes "w_OpenSCManager w = None"
  shows "(\<forall>st. w_OpenService w = None \<and> w_Query w = Inr st \<longrightarrow>
            (State st = svc_StartPending \<or> State st = svc_Running \<longrightarrow>
               snd (Status ws w) = (StatusRunning, None)) \<and>
            (State st = svc_PausePending \<or> State st = svc_Paused \<or>
             State st = svc_ContinuePending \<or> State st = svc_StopPending \<or>
             State st = svc_Stopped \<longrightarrow>
               snd (Status ws w) = (StatusStopped, None)) \<and>
            (State st \<notin> {svc_StartPending, svc_Running, svc_PausePending, svc_Paused,
                          svc_ContinuePending, svc_StopPending, svc_Stopped} \<longrightarrow>
               snd (Status ws w) =
                 (StatusUnknown, Some (ErrorString (''unknown status '' @ w_Sprint w st))))) \<and>
         (w_OpenService w = Some (Errno errnoServiceDoesNotExist) \<longrightarrow>
            snd (Status ws w) = (StatusUnknown, Some ErrNotInstalled))"
  using assms by (auto simp: Status_def svc_consts)

theorem Status_collapse_witness:
  "snd (Status a_ws (a_world\<lparr>w_Query := Inr (status_of svc_Paused 0)\<rparr>)) =
     (StatusStopped, None) \<and>
   snd (Status a_ws (a_world\<lparr>w_Query := Inr (status_of svc_StartPending 0)\<rparr>)) =
     (StatusRunning, None) \<and>
   snd (Status a_ws (a_world\<lparr>w_Query := Inr (status_of 9 0)\<rparr>)) =
     (StatusUnknown, Some (ErrorString ''unknown status {}'')) \<and>
   snd (Status a_ws (a_world\<lparr>w_OpenService := Some (Errno 1060)\<rparr>)) =
     (StatusUnknown, Some ErrNotInstalled)"
proof -
  have 1: "snd (Status a_ws (a_world\<lparr>w_Query := Inr (status_of svc_Paused 0)\<rparr>)) =
     (StatusStopped, None)"
    using Status_collapse[of "a_world\<lparr>w_Query := Inr (status_of svc_Paused 0)\<rparr>" a_ws]
    by (simp add: a_world_def status_of_def)
  have 2: "snd (Status a_ws (a_world\<lparr>w_Query := Inr (status_of svc_StartPending 0)\<rparr>)) =
     (StatusRunning, None)"
    using Status_collapse[of "a_world\<lparr>w_Query := Inr (status_of svc_StartPending 0)\<rparr>" a_ws]
    by (simp add: a_world_def status_of_def)
  have 3: "snd (Status a_ws (a_world\<lparr>w_Query := Inr (status_of 9 0)\<rparr>)) =
     (StatusUnknown, Some (ErrorString ''unknown status {}''))"
    using Status_collapse[of "a_world\<lparr>w_Query := Inr (status_of 9 0)\<rparr>" a_ws]
    by (simp add: a_world_def status_of_def svc_consts)
  have 4: "snd (Status a_ws (a_world\<lparr>w_OpenService := Some (Errno 1060)\<rparr>)) =
     (StatusUnknown, Some ErrNotInstalled)"
    using Status_collapse[of "a_world\<lparr>w_OpenService := Some (Errno 1060)\<rparr>" a_ws]
    by (simp add: a_world_def errnoServiceDoesNotExist_def)
  from 1 2 3 4 show ?thesis by simp
qed

subsection \<open>The stop wait\<close>

text \<open>
  C3, as the code has it. A \<^verbatim>\<open>Stop\<close> that has opened the service and whose
  stop control succeeded sets a timer to the resolved kill timeout plus twice
  50 ms and a ticker to 50 ms. If the status the control call returned is
  already Stopped it returns success without a query. Otherwise it makes one
  status query per tick and returns success at the first query whose raw state
  is Stopped, the query's error at the first query that fails, and the error
  "stop service NAME timeout" when the timeout is received first; until one of
  these happens it is waiting. Success, the timeout error and the error of a
  failed query are the only results.
\<close>

theorem Stop_wait_outcomes:
  assumes "w_OpenSCManager w = None" "w_OpenService w = None" "w_Control w = Inr st0"
  shows "take 5 (fst (Stop ws w)) =
           [OpenSCManager, OpenService (Name ws), Service_Control svc_Stop,
            time_After (getStopTimeout w + 2 * (50 * Millisecond)),
            time_NewTicker (50 * Millisecond)] \<and>
         (State st0 = svc_Stopped \<longrightarrow>
            snd (Stop ws w) = Some None \<and> Service_Query \<notin> set (fst (Stop ws w))) \<and>
         (\<forall>sts q rest.
            State st0 \<noteq> svc_Stopped \<and> (\<forall>s \<in> set sts. State s \<noteq> svc_Stopped) \<and>
            w_stopWait w = map (\<lambda>s. Tick (Inr s)) sts @ q # rest \<longrightarrow>
            (\<forall>s. q = Tick (Inr s) \<and> State s = svc_Stopped \<longrightarrow>
               snd (Stop ws w) = Some None \<and>
               length (filter (\<lambda>c. c = Service_Query) (fst (Stop ws w))) = Suc (length sts)) \<and>
            (\<forall>e. q = Tick (Inl e) \<longrightarrow> snd (Stop ws w) = Some (Some e)) \<and>
            (q = Timeout \<longrightarrow>
               snd (Stop ws w) = Some (Some (stop_timeout_error (Name ws))) \<and>
               length (filter (\<lambda>c. c = Service_Query) (fst (Stop ws w))) = length sts)) \<and>
         (\<forall>sts.
            State st0 \<noteq> svc_Stopped \<and> (\<forall>s \<in> set sts. State s \<noteq> svc_Stopped) \<and>
            w_stopWait w = map (\<lambda>s. Tick (Inr s)) sts \<longrightarrow>
            snd (Stop ws w) = None) \<and>
         (snd (Stop ws w) = None \<or>
          snd (Stop ws w) = Some None \<and> observed_Stopped w \<or>
          snd (Stop ws w) = Some (Some (stop_timeout_error (Name ws))) \<or>
          (\<exists>e. Tick (Inl e) \<in> set (w_stopWait w) \<and> snd (Stop ws w) = Some (Some e)))"
proof -
  note stop = Stop_opened[OF assms, of ws]
  let ?loop = "stopWait_loop (Name ws) st0 (w_stopWait w)"
  have res: "snd (Stop ws w) = snd ?loop"
    by (simp add: stop snd_calls_before snd_deferred)
  have "take 5 (fst (Stop ws w)) =
           [OpenSCManager, OpenService (Name ws), Service_Control svc_Stop,
            time_After (getStopTimeout w + 2 * (50 * Millisecond)),
            time_NewTicker (50 * Millisecond)]"
    by (simp add: stop fst_calls_before mult.commute)
  moreover have "State st0 = svc_Stopped \<longrightarrow>
            snd (Stop ws w) = Some None \<and> Service_Query \<notin> set (fst (Stop ws w))"
    by (simp add: stop stopWait_loop_Stopped)
  moreover have "\<forall>sts q rest.
            State st0 \<noteq> svc_Stopped \<and> (\<forall>s \<in> set sts. State s \<noteq> svc_Stopped) \<and>
            w_stopWait w = map (\<lambda>s. Tick (Inr s)) sts @ q # rest \<longrightarrow>
            (\<forall>s. q = Tick (Inr s) \<and> State s = svc_Stopped \<longrightarrow>
               snd (Stop ws w) = Some None \<and>
               length (filter (\<lambda>c. c = Service_Query) (fst (Stop ws w))) = Suc (length sts)) \<and>
            (\<forall>e. q = Tick (Inl e) \<longrightarrow> snd (Stop ws w) = Some (Some e)) \<and>
            (q = Timeout \<longrightarrow>
               snd (Stop ws w) = Some (Some (stop_timeout_error (Name ws))) \<and>
               length (filter (\<lambda>c. c = Service_Query) (fst (Stop ws w))) = length sts)"
  proof (intro allI impI, elim conjE)
    fix sts q rest
    assume a: "State st0 \<noteq> svc_Stopped" "\<forall>s \<in> set sts. State s \<noteq> svc_Stopped"
      and sel: "w_stopWait w = map (\<lambda>s. Tick (Inr s)) sts @ q # rest"
    have l: "State (last (st0 # sts)) \<noteq> svc_Stopped"
      using a by (rule last_not_Stopped)
    have loop: "?loop = calls_before (polls (length sts))
        (stopWait_loop (Name ws) (last (st0 # sts)) (q # rest))"
      unfolding sel using a by (rule stopWait_loop_polls)
    show "(\<forall>s. q = Tick (Inr s) \<and> State s = svc_Stopped \<longrightarrow>
               snd (Stop ws w) = Some None \<and>
               length (filter (\<lambda>c. c = Service_Query) (fst (Stop ws w))) = Suc (length sts)) \<and>
            (\<forall>e. q = Tick (Inl e) \<longrightarrow> snd (Stop ws w) = Some (Some e)) \<and>
            (q = Timeout \<longrightarrow>
               snd (Stop ws w) = Some (Some (stop_timeout_error (Name ws))) \<and>
               length (filter (\<lambda>c. c = Service_Query) (fst (Stop ws w))) = length sts)"
      using l
      by (auto simp: stop loop stopWait_loop_Tick stopWait_loop_Stopped
          stopWait_loop_Query_error stopWait_loop_Timeout count_polls)
  qed
  moreover have "\<forall>sts.
            State st0 \<noteq> svc_Stopped \<and> (\<forall>s \<in> set sts. State s \<noteq> svc_Stopped) \<and>
            w_stopWait w = map (\<lambda>s. Tick (Inr s)) sts \<longrightarrow>
            snd (Stop ws w) = None"
  proof (intro allI impI, elim conjE)
    fix sts
    assume a: "State st0 \<noteq> svc_Stopped" "\<forall>s \<in> set sts. State s \<noteq> svc_Stopped"
      and sel: "w_stopWait w = map (\<lambda>s. Tick (Inr s)) sts"
    have l: "State (last (st0 # sts)) \<noteq> svc_Stopped"
      using a by (rule last_not_Stopped)
    have "?loop = calls_before (polls (length sts))
        (stopWait_loop (Name ws) (last (st0 # sts)) [])"
      unfolding sel using stopWait_loop_polls[OF a, of "Name ws" "[]"] by simp
    with l show "snd (Stop ws w) = None"
      by (simp add: res stopWait_loop_blocked)
  qed
  moreover have "snd (Stop ws w) = None \<or>
          snd (Stop ws w) = Some None \<and> observed_Stopped w \<or>
          snd (Stop ws w) = Some (Some (stop_timeout_error (Name ws))) \<or>
          (\<exists>e. Tick (Inl e) \<in> set (w_stopWait w) \<and> snd (Stop ws w) = Some (Some e))"
  proof -
    have "snd ?loop = Some None \<longrightarrow> observed_Stopped w"
      using stopWait_loop_converged[of "Name ws" st0 "w_stopWait w"] assms(3)
      by (auto simp: observed_Stopped_def)
    with stopWait_loop_outcomes[of "Name ws" st0 "w_stopWait w"] show ?thesis
      unfolding res by blast
  qed
  ultimately show ?thesis by blast
qed

theorem Stop_wait_outcomes_witness:
  "take 5 (fst (Stop a_ws
     (a_world\<lparr>w_stopWait := [Tick (Inr (status_of svc_StopPending 0)),
                             Tick (Inr (status_of svc_Stopped 0))]\<rparr>))) =
     [OpenSCManager, OpenService ''svc'', Service_Control svc_Stop,
      time_After (5000 * Millisecond + 2 * (50 * Millisecond)),
      time_NewTicker (50 * Millisecond)] \<and>
   snd (Stop a_ws
     (a_world\<lparr>w_stopWait := [Tick (Inr (status_of svc_StopPending 0)),
                             Tick (Inr (status_of svc_Stopped 0))]\<rparr>)) = Some None \<and>
   length (filter (\<lambda>c. c = Service_Query) (fst (Stop a_ws
     (a_world\<lparr>w_stopWait := [Tick (Inr (status_of svc_StopPending 0)),
                             Tick (Inr (status_of svc_Stopped 0))]\<rparr>)))) = 2"
proof -
  let ?w = "a_world\<lparr>w_stopWait := [Tick (Inr (status_of svc_StopPending 0)),
                             Tick (Inr (status_of svc_Stopped 0))]\<rparr>"
  have h: "w_OpenSCManager ?w = None" "w_OpenService ?w = None"
    "w_Control ?w = Inr (status_of svc_StopPending 0)"
    by (simp_all add: a_world_def)
  note inst = Stop_wait_outcomes[OF h, of a_ws]
  have t: "getStopTimeout ?w = 5000 * Millisecond"
    by (simp add: getStopTimeout_def a_world_def)
  have n: "Name a_ws = ''svc''"
    by (simp add: a_ws_def a_service_def)
  have sel: "State (status_of svc_StopPending 0) \<noteq> svc_Stopped \<and>
      (\<forall>s \<in> set [status_of svc_StopPending 0]. State s \<noteq> svc_Stopped) \<and>
      w_stopWait ?w = map (\<lambda>s. Tick (Inr s)) [status_of svc_StopPending 0] @
        Tick (Inr (status_of svc_Stopped 0)) # []"
    by (simp add: a_world_def status_of_def svc_consts)
  from inst[THEN conjunct2, THEN conjunct2, THEN conjunct1, rule_format, OF sel,
      THEN conjunct1, rule_format, of "status_of svc_Stopped 0"]
  have "snd (Stop a_ws ?w) = Some None \<and>
      length (filter (\<lambda>c. c = Service_Query) (fst (Stop a_ws ?w))) = 2"
    by (simp add: status_of_def)
  with inst[THEN conjunct1] show ?thesis
    by (simp only: t n) 
qed

text \<open>A run of \<^verbatim>\<open>Stop\<close> whose stop control succeeded and whose first status
  query fails with errno 5: the result is that error, which is neither success
  nor the timeout error.\<close>

theorem Stop_wait_query_error:
  "w_Control (a_world\<lparr>w_stopWait := [Tick (Inl (Errno 5))]\<rparr>) =
     Inr (status_of svc_StopPending 0) \<and>
   Stop a_ws (a_world\<lparr>w_stopWait := [Tick (Inl (Errno 5))]\<rparr>) =
     ([OpenSCManager, OpenService ''svc'', Service_Control svc_Stop,
       time_After (5000 * Millisecond + 2 * (50 * Millisecond)),
       time_NewTicker (50 * Millisecond),
       Recv_tick, Service_Query, Ticker_Stop, Service_Close, mgr_Disconnect],
      Some (Some (Errno 5))) \<and>
   Some (Errno 5) \<noteq> None \<and>
   Errno 5 \<noteq> stop_timeout_error ''svc''"
  by (simp add: Stop_def stopWait_def stopWait_loop.simps getStopTimeout_def a_world_def
      a_ws_def a_service_def status_of_def stop_timeout_error_def svc_consts mult.commute)

subsection \<open>Restart\<close>

text \<open>
  C6. \<^verbatim>\<open>Restart\<close> issues the start command at most once. When it issues it,
  the stop wait has returned success, so a status Stopped was observed, every
  call of the stop wait precedes it, and the result of \<^verbatim>\<open>Restart\<close> is the
  result of the start command. When the stop wait returns an error,
  \<^verbatim>\<open>Restart\<close> returns that error and the start command is not issued; while
  the stop wait has not returned, neither has \<^verbatim>\<open>Restart\<close>, and the start
  command is not issued.
\<close>

theorem Restart_sequential:
  "length (filter (\<lambda>c. c = Service_Start) (fst (Restart ws w))) \<le> 1 \<and>
   (Service_Start \<in> set (fst (Restart ws w)) \<longrightarrow>
      snd (stopWait ws w) = Some None \<and> observed_Stopped w \<and>
      fst (Restart ws w) =
        [OpenSCManager, OpenService (Name ws)] @ fst (stopWait ws w) @
        [Service_Start, Service_Close, mgr_Disconnect] \<and>
      snd (Restart ws w) = Some (w_Start w)) \<and>
   (w_OpenSCManager w = None \<and> w_OpenService w = None \<longrightarrow>
      (\<forall>err. snd (stopWait ws w) = Some (Some err) \<longrightarrow>
         snd (Restart ws w) = Some (Some err) \<and>
         Service_Start \<notin> set (fst (Restart ws w))) \<and>
      (snd (stopWait ws w) = Some None \<longrightarrow>
         snd (Restart ws w) = Some (w_Start w) \<and>
         Service_Start \<in> set (fst (Restart ws w))) \<and>
      (snd (stopWait ws w) = None \<longrightarrow>
         snd (Restart ws w) = None \<and>
         Service_Start \<notin> set (fst (Restart ws w))))"
proof (cases "w_OpenSCManager w = None \<and> w_OpenService w = None")
  case False
  then show ?thesis
    by (auto simp: Restart_def split: option.splits)
next
  case True
  have sw: "Service_Start \<notin> set (fst (stopWait ws w))"
    "filter (\<lambda>c. c = Service_Start) (fst (stopWait ws w)) = []"
    using Service_Start_notin_stopWait[of ws w] by (auto simp: filter_empty_conv)
  show ?thesis
  proof (cases "snd (stopWait ws w)")
    case None
    with True sw show ?thesis
      by (simp add: Restart_opened)
  next
    case (Some res)
    show ?thesis
    proof (cases res)
      case None
      with Some True sw stopWait_converged[of ws w] show ?thesis
        by (simp add: Restart_opened)
    next
      case (Some err)
      with \<open>snd (stopWait ws w) = Some res\<close> True sw show ?thesis
        by (simp add: Restart_opened)
    qed
  qed
qed

theorem Restart_sequential_witness:
  "Restart a_ws
     (a_world\<lparr>w_stopWait := [Tick (Inr (status_of svc_StopPending 0)),
                             Tick (Inr (status_of svc_Stopped 0))],
              w_Start := Some (Errno 5)\<rparr>) =
     ([OpenSCManager, OpenService ''svc'', Service_Control svc_Stop,
       time_After (Millisecond * 5000 + Millisecond * 50 * 2),
       time_NewTicker (Millisecond * 50),
       Recv_tick, Service_Query, Recv_tick, Service_Query, Ticker_Stop,
       Service_Start, Service_Close, mgr_Disconnect],
      Some (Some (Errno 5)))"
proof -
  let ?w = "a_world\<lparr>w_stopWait := [Tick (Inr (status_of svc_StopPending 0)),
                             Tick (Inr (status_of svc_Stopped 0))],
              w_Start := Some (Errno 5)\<rparr>"
  have sw: "stopWait a_ws ?w =
     ([Service_Control svc_Stop,
       time_After (Millisecond * 5000 + Millisecond * 50 * 2),
       time_NewTicker (Millisecond * 50),
       Recv_tick, Service_Query, Recv_tick, Service_Query, Ticker_Stop], Some None)"
    by (simp add: stopWait_def a_world_def a_ws_def a_service_def getStopTimeout_def
        stopWait_loop.simps status_of_def svc_consts)
  have opened: "w_OpenSCManager ?w = None \<and> w_OpenService ?w = None"
    by (simp add: a_world_def)
  from Restart_sequential[of a_ws ?w, THEN conjunct2, THEN conjunct2, rule_format, OF opened,
      THEN conjunct2, THEN conjunct1, rule_format]
  have "snd (Restart a_ws ?w) = Some (w_Start ?w) \<and> Service_Start \<in> set (fst (Restart a_ws ?w))"
    using sw by simp
  with Restart_sequential[of a_ws ?w, THEN conjunct2, THEN conjunct1, rule_format]
  have "fst (Restart a_ws ?w) =
        [OpenSCManager, OpenService (Name a_ws)] @ fst (stopWait a_ws ?w) @
        [Service_Start, Service_Close, mgr_Disconnect] \<and>
      snd (Restart a_ws ?w) = Some (w_Start ?w)"
    by simp
  then show ?thesis
    unfolding sw by (simp add: prod_eq_iff a_ws_def a_service_def)
qed

lemma deferred_calls_before:
  "deferred ds (calls_before cs x) = calls_before cs (deferred ds x)"
  by (cases x; cases "snd x") auto

lemma deferred_deferred: "deferred ds (deferred cs x) = deferred (cs @ ds) x"
  by (cases x; cases "snd x") auto

lemma opens_Suc: "opens name (Suc n) = [Recv_tick, mgr_OpenService name, Service_Close] @ opens name n"
  by (simp add: opens_def)

lemma uninstallWait_loop_opens:
  "uninstallWait_loop name (replicate n (Tick None) @ rest) =
   calls_before (opens name n) (uninstallWait_loop name rest)"
  by (induction n) (simp_all add: opens_def calls_before_Nil calls_before_calls_before)

lemma stopWait_loop_calls:
  "set (fst (stopWait_loop name st sel)) \<subseteq> {Recv_tick, Service_Query, Recv_timeout}"
proof (induction sel arbitrary: st)
  case Nil
  show ?case by (simp add: stopWait_loop.simps)
next
  case (Cons q sel)
  show ?case
  proof (cases "State st = svc_Stopped")
    case True
    then show ?thesis by (simp add: stopWait_loop_Stopped)
  next
    case False
    show ?thesis
    proof (cases q)
      case Timeout
      with False show ?thesis by (simp add: stopWait_loop_Timeout)
    next
      case (Tick x)
      show ?thesis
      proof (cases x)
        case (Inl e)
        with Tick False show ?thesis by (simp add: stopWait_loop_Query_error)
      next
        case (Inr st')
        with Cons[of st'] Tick False show ?thesis
          by (simp add: stopWait_loop_Tick fst_calls_before)
      qed
    qed
  qed
qed

lemma Stop_no_Delete: "Service_Delete \<notin> set (fst (Stop ws w))"
proof -
  have loop: "\<And>st. Service_Delete \<notin>
      set (fst (deferred [Ticker_Stop, Service_Close, mgr_Disconnect]
                 (stopWait_loop (Name ws) st (w_stopWait w))))"
  proof -
    fix st
    from stopWait_loop_calls[of "Name ws" st "w_stopWait w"]
      fst_deferred_subset[of "[Ticker_Stop, Service_Close, mgr_Disconnect]"
        "stopWait_loop (Name ws) st (w_stopWait w)"]
    show "Service_Delete \<notin>
      set (fst (deferred [Ticker_Stop, Service_Close, mgr_Disconnect]
                 (stopWait_loop (Name ws) st (w_stopWait w))))"
      by auto
  qed
  show ?thesis
  proof (cases "w_OpenSCManager w = None \<and> w_OpenService w = None")
    case False
    then show ?thesis by (auto simp: Stop_def split: option.splits)
  next
    case True
    show ?thesis
    proof (cases "w_Control w")
      case (Inl e)
      with True show ?thesis by (simp add: Stop_def stopWait_def)
    next
      case (Inr st)
      with True loop[of st] show ?thesis
        by (simp add: Stop_opened fst_calls_before)
    qed
  qed
qed

lemma Uninstall_deleted:
  assumes "snd (Stop ws w) = Some None" "w_Connect w = None" "w_mgr_OpenService w = None"
    "w_Delete w = None" "w_eventlog_Remove w = None \<or> w_eventlog_Remove w = Some (Errno 2)"
  shows "Uninstall ws w =
     calls_before
       (fst (Stop ws w) @
        [mgr_Connect, mgr_OpenService (Name ws), Service_Delete, eventlog_Remove (Name ws),
         time_After (getStopTimeout w + 2 * (100 * Millisecond)),
         time_NewTicker (100 * Millisecond)])
       (deferred [Ticker_Stop, Service_Close, mgr_Disconnect]
          (uninstallWait_loop (Name ws) (w_uninstallWait w)))"
proof -
  obtain tr where s: "Stop ws w = (tr, Some None)"
    using assms(1) by (cases "Stop ws w") simp
  from assms(5) show ?thesis
    using assms(2-4) s
    by (auto simp: Uninstall_def uninstallWait_def Let_def is_ERROR_FILE_NOT_FOUND_def
        deferred_calls_before deferred_deferred calls_before_calls_before mult.commute)
qed

lemma Uninstall_Connect_fails:
  assumes "snd (Stop ws w) = Some None" "w_Connect w = Some err"
  shows "Uninstall ws w = (fst (Stop ws w) @ [mgr_Connect], Some (Some err))"
  using assms by (cases "Stop ws w") (simp add: Uninstall_def)

lemma Uninstall_open_fails:
  assumes "snd (Stop ws w) = Some None" "w_Connect w = None" "w_mgr_OpenService w = Some err"
  shows "Uninstall ws w =
     (fst (Stop ws w) @ [mgr_Connect, mgr_OpenService (Name ws), mgr_Disconnect],
      Some (if isServiceDoesNotExist err then None
            else Some (ErrorString (''error open service '' @ Name ws))))"
  using assms by (cases "Stop ws w") (simp add: Uninstall_def)

lemma Uninstall_Delete_fails:
  assumes "snd (Stop ws w) = Some None" "w_Connect w = None" "w_mgr_OpenService w = None"
    "w_Delete w = Some err"
  shows "Uninstall ws w =
     (fst (Stop ws w) @
      [mgr_Connect, mgr_OpenService (Name ws), Service_Delete, Service_Close, mgr_Disconnect],
      Some (Some err))"
  using assms by (cases "Stop ws w") (simp add: Uninstall_def)

lemma Uninstall_Remove_fails:
  assumes "snd (Stop ws w) = Some None" "w_Connect w = None" "w_mgr_OpenService w = None"
    "w_Delete w = None" "w_eventlog_Remove w = Some err" "err \<noteq> Errno 2"
  shows "Uninstall ws w =
     (fst (Stop ws w) @
      [mgr_Connect, mgr_OpenService (Name ws), Service_Delete, eventlog_Remove (Name ws),
       Service_Close, mgr_Disconnect],
      Some (Some (ErrorString (''RemoveEventLogSource() failed: '' @ Error (w_Error w) err))))"
  using assms
  by (cases "Stop ws w") (simp add: Uninstall_def is_ERROR_FILE_NOT_FOUND_def)

subsection \<open>Uninstall\<close>

text \<open>
  C7, as the code has it. \<^verbatim>\<open>Uninstall\<close> first runs \<^verbatim>\<open>Stop\<close>. If \<^verbatim>\<open>Stop\<close>
  returns an error, \<^verbatim>\<open>Uninstall\<close> returns that error and does nothing else:
  the service entry is not deleted. If \<^verbatim>\<open>Stop\<close> succeeds, \<^verbatim>\<open>Uninstall\<close>
  connects to the manager and opens the service. A connect that fails ends it
  with that error. An open that fails because the service does not exist
  (errno 1060) ends it with success, and an open that fails otherwise with
  "error open service NAME"; in both cases nothing is deleted and there is no
  wait. With the service open it deletes the entry; a delete that fails ends it
  with that error. Then it removes the event-log source; a failure other than
  errno 2 (the source is not there) ends it with "RemoveEventLogSource()
  failed: " and the error's text. Only then comes the wait: a timer is set to
  the kill timeout plus twice 100 ms and a ticker to 100 ms, and on every tick
  the service is opened: \<^verbatim>\<open>Uninstall\<close> succeeds at the first open that
  fails because the service does not exist, fails with "error open service
  NAME" at the first open that fails otherwise, and fails with "delete service
  NAME timeout" when the timeout is received first; while the opens succeed it
  is waiting.
\<close>

theorem Uninstall_steps:
  "(\<forall>err. snd (Stop ws w) = Some (Some err) \<longrightarrow>
      Uninstall ws w = Stop ws w \<and> Service_Delete \<notin> set (fst (Uninstall ws w))) \<and>
   (snd (Stop ws w) = None \<longrightarrow> Uninstall ws w = Stop ws w) \<and>
   (snd (Stop ws w) = Some None \<and> w_Connect w = None \<and> w_mgr_OpenService w = None \<and>
    w_Delete w = None \<and>
    (w_eventlog_Remove w = None \<or> w_eventlog_Remove w = Some (Errno 2)) \<longrightarrow>
      Uninstall ws w =
        calls_before
          (fst (Stop ws w) @
           [mgr_Connect, mgr_OpenService (Name ws), Service_Delete,
            eventlog_Remove (Name ws),
            time_After (getStopTimeout w + 2 * (100 * Millisecond)),
            time_NewTicker (100 * Millisecond)])
          (deferred [Ticker_Stop, Service_Close, mgr_Disconnect]
             (uninstallWait_loop (Name ws) (w_uninstallWait w))) \<and>
      (\<forall>n q rest. w_uninstallWait w = replicate n (Tick None) @ q # rest \<longrightarrow>
         (\<forall>err. q = Tick (Some err) \<and> isServiceDoesNotExist err \<longrightarrow>
            snd (Uninstall ws w) = Some None) \<and>
         (\<forall>err. q = Tick (Some err) \<and> \<not> isServiceDoesNotExist err \<longrightarrow>
            snd (Uninstall ws w) =
              Some (Some (ErrorString (''error open service '' @ Name ws)))) \<and>
         (q = Timeout \<longrightarrow>
            snd (Uninstall ws w) = Some (Some (delete_timeout_error (Name ws))))) \<and>
      (\<forall>n. w_uninstallWait w = replicate n (Tick None) \<longrightarrow>
         snd (Uninstall ws w) = None)) \<and>
   (\<forall>err. snd (Stop ws w) = Some None \<and> w_Connect w = Some err \<longrightarrow>
      Uninstall ws w = (fst (Stop ws w) @ [mgr_Connect], Some (Some err))) \<and>
   (\<forall>err. snd (Stop ws w) = Some None \<and> w_Connect w = None \<and>
          w_mgr_OpenService w = Some err \<longrightarrow>
      Uninstall ws w =
        (fst (Stop ws w) @ [mgr_Connect, mgr_OpenService (Name ws), mgr_Disconnect],
         Some (if isServiceDoesNotExist err then None
               else Some (ErrorString (''error open service '' @ Name ws))))) \<and>
   (\<forall>err. snd (Stop ws w) = Some None \<and> w_Connect w = None \<and>
          w_mgr_OpenService w = None \<and> w_Delete w = Some err \<longrightarrow>
      Uninstall ws w =
        (fst (Stop ws w) @
         [mgr_Connect, mgr_OpenService (Name ws), Service_Delete, Service_Close,
          mgr_Disconnect],
         Some (Some err))) \<and>
   (\<forall>err. snd (Stop ws w) = Some None \<and> w_Connect w = None \<and>
          w_mgr_OpenService w = None \<and> w_Delete w = None \<and>
          w_eventlog_Remove w = Some err \<and> err \<noteq> Errno 2 \<longrightarrow>
      Uninstall ws w =
        (fst (Stop ws w) @
         [mgr_Connect, mgr_OpenService (Name ws), Service_Delete,
          eventlog_Remove (Name ws), Service_Close, mgr_Disconnect],
         Some (Some (ErrorString
           (''RemoveEventLogSource() failed: '' @ Error (w_Error w) err)))))"
proof (intro conjI allI impI)
  fix err
  assume "snd (Stop ws w) = Some (Some err)"
  then show u: "Uninstall ws w = Stop ws w"
    by (cases "Stop ws w") (simp add: Uninstall_def)
  show "Service_Delete \<notin> set (fst (Uninstall ws w))"
    unfolding u by (rule Stop_no_Delete)
next
  assume "snd (Stop ws w) = None"
  then show "Uninstall ws w = Stop ws w"
    by (cases "Stop ws w") (simp add: Uninstall_def)
next
  assume a: "snd (Stop ws w) = Some None \<and> w_Connect w = None \<and>
    w_mgr_OpenService w = None \<and> w_Delete w = None \<and>
    (w_eventlog_Remove w = None \<or> w_eventlog_Remove w = Some (Errno 2))"
  then show "Uninstall ws w =
        calls_before
          (fst (Stop ws w) @
           [mgr_Connect, mgr_OpenService (Name ws), Service_Delete,
            eventlog_Remove (Name ws),
            time_After (getStopTimeout w + 2 * (100 * Millisecond)),
            time_NewTicker (100 * Millisecond)])
          (deferred [Ticker_Stop, Service_Close, mgr_Disconnect]
             (uninstallWait_loop (Name ws) (w_uninstallWait w)))"
    by (intro Uninstall_deleted) simp_all
next
  fix n q rest err
  assume a: "snd (Stop ws w) = Some None \<and> w_Connect w = None \<and>
    w_mgr_OpenService w = None \<and> w_Delete w = None \<and>
    (w_eventlog_Remove w = None \<or> w_eventlog_Remove w = Some (Errno 2))"
    and sel: "w_uninstallWait w = replicate n (Tick None) @ q # rest"
    and q: "q = Tick (Some err) \<and> isServiceDoesNotExist err"
  have "Uninstall ws w =
        calls_before
          (fst (Stop ws w) @
           [mgr_Connect, mgr_OpenService (Name ws), Service_Delete,
            eventlog_Remove (Name ws),
            time_After (getStopTimeout w + 2 * (100 * Millisecond)),
            time_NewTicker (100 * Millisecond)])
          (deferred [Ticker_Stop, Service_Close, mgr_Disconnect]
             (uninstallWait_loop (Name ws) (w_uninstallWait w)))"
    using a by (intro Uninstall_deleted) simp_all
  with q show "snd (Uninstall ws w) = Some None"
    by (simp add: sel uninstallWait_loop_opens snd_calls_before snd_deferred)
next
  fix n q rest err
  assume a: "snd (Stop ws w) = Some None \<and> w_Connect w = None \<and>
    w_mgr_OpenService w = None \<and> w_Delete w = None \<and>
    (w_eventlog_Remove w = None \<or> w_eventlog_Remove w = Some (Errno 2))"
    and sel: "w_uninstallWait w = replicate n (Tick None) @ q # rest"
    and q: "q = Tick (Some err) \<and> \<not> isServiceDoesNotExist err"
  have "Uninstall ws w =
        calls_before
          (fst (Stop ws w) @
           [mgr_Connect, mgr_OpenService (Name ws), Service_Delete,
            eventlog_Remove (Name ws),
            time_After (getStopTimeout w + 2 * (100 * Millisecond)),
            time_NewTicker (100 * Millisecond)])
          (deferred [Ticker_Stop, Service_Close, mgr_Disconnect]
             (uninstallWait_loop (Name ws) (w_uninstallWait w)))"
    using a by (intro Uninstall_deleted) simp_all
  with q show "snd (Uninstall ws w) =
      Some (Some (ErrorString (''error open service '' @ Name ws)))"
    by (simp add: sel uninstallWait_loop_opens snd_calls_before snd_deferred)
next
  fix n q rest
  assume a: "snd (Stop ws w) = Some None \<and> w_Connect w = None \<and>
    w_mgr_OpenService w = None \<and> w_Delete w = None \<and>
    (w_eventlog_Remove w = None \<or> w_eventlog_Remove w = Some (Errno 2))"
    and sel: "w_uninstallWait w = replicate n (Tick None) @ q # rest"
    and q: "q = Timeout"
  have "Uninstall ws w =
        calls_before
          (fst (Stop ws w) @
           [mgr_Connect, mgr_OpenService (Name ws), Service_Delete,
            eventlog_Remove (Name ws),
            time_After (getStopTimeout w + 2 * (100 * Millisecond)),
            time_NewTicker (100 * Millisecond)])
          (deferred [Ticker_Stop, Service_Close, mgr_Disconnect]
             (uninstallWait_loop (Name ws) (w_uninstallWait w)))"
    using a by (intro Uninstall_deleted) simp_all
  with q show "snd (Uninstall ws w) = Some (Some (delete_timeout_error (Name ws)))"
    by (simp add: sel uninstallWait_loop_opens snd_calls_before snd_deferred
        delete_timeout_error_def)
next
  fix n
  assume a: "snd (Stop ws w) = Some None \<and> w_Connect w = None \<and>
    w_mgr_OpenService w = None \<and> w_Delete w = None \<and>
    (w_eventlog_Remove w = None \<or> w_eventlog_Remove w = Some (Errno 2))"
    and sel: "w_uninstallWait w = replicate n (Tick None)"
  have "Uninstall ws w =
        calls_before
          (fst (Stop ws w) @
           [mgr_Connect, mgr_OpenService (Name ws), Service_Delete,
            eventlog_Remove (Name ws),
            time_After (getStopTimeout w + 2 * (100 * Millisecond)),
            time_NewTicker (100 * Millisecond)])
          (deferred [Ticker_Stop, Service_Close, mgr_Disconnect]
             (uninstallWait_loop (Name ws) (w_uninstallWait w)))"
    using a by (intro Uninstall_deleted) simp_all
  then show "snd (Uninstall ws w) = None"
    using uninstallWait_loop_opens[of "Name ws" n "[]"]
    by (simp add: sel snd_calls_before snd_deferred)
next
  fix err
  assume "snd (Stop ws w) = Some None \<and> w_Connect w = Some err"
  then show "Uninstall ws w = (fst (Stop ws w) @ [mgr_Connect], Some (Some err))"
    by (intro Uninstall_Connect_fails) simp_all
next
  fix err
  assume "snd (Stop ws w) = Some None \<and> w_Connect w = None \<and>
          w_mgr_OpenService w = Some err"
  then show "Uninstall ws w =
        (fst (Stop ws w) @ [mgr_Connect, mgr_OpenService (Name ws), mgr_Disconnect],
         Some (if isServiceDoesNotExist err then None
               else Some (ErrorString (''error open service '' @ Name ws))))"
    by (intro Uninstall_open_fails) simp_all
next
  fix err
  assume "snd (Stop ws w) = Some None \<and> w_Connect w = None \<and>
          w_mgr_OpenService w = None \<and> w_Delete w = Some err"
  then show "Uninstall ws w =
        (fst (Stop ws w) @
         [mgr_Connect, mgr_OpenService (Name ws), Service_Delete, Service_Close,
          mgr_Disconnect],
         Some (Some err))"
    by (intro Uninstall_Delete_fails) simp_all
next
  fix err
  assume "snd (Stop ws w) = Some None \<and> w_Connect w = None \<and>
          w_mgr_OpenService w = None \<and> w_Delete w = None \<and>
          w_eventlog_Remove w = Some err \<and> err \<noteq> Errno 2"
  then show "Uninstall ws w =
        (fst (Stop ws w) @
         [mgr_Connect, mgr_OpenService (Name ws), Service_Delete,
          eventlog_Remove (Name ws), Service_Close, mgr_Disconnect],
         Some (Some (ErrorString
           (''RemoveEventLogSource() failed: '' @ Error (w_Error w) err))))"
    by (intro Uninstall_Remove_fails) simp_all
qed

theorem Uninstall_steps_witness:
  "Uninstall a_ws
     (a_world\<lparr>w_Control := Inr (status_of svc_Stopped 0),
              w_uninstallWait := [Tick None, Tick (Some (Errno 1060))]\<rparr>) =
     ([OpenSCManager, OpenService ''svc'', Service_Control svc_Stop,
       time_After (5000 * Millisecond + 2 * (50 * Millisecond)),
       time_NewTicker (50 * Millisecond), Ticker_Stop, Service_Close, mgr_Disconnect,
       mgr_Connect, mgr_OpenService ''svc'', Service_Delete, eventlog_Remove ''svc'',
       time_After (5000 * Millisecond + 2 * (100 * Millisecond)),
       time_NewTicker (100 * Millisecond),
       Recv_tick, mgr_OpenService ''svc'', Service_Close,
       Recv_tick, mgr_OpenService ''svc'',
       Ticker_Stop, Service_Close, mgr_Disconnect],
      Some None)"
proof -
  let ?w = "a_world\<lparr>w_Control := Inr (status_of svc_Stopped 0),
              w_uninstallWait := [Tick None, Tick (Some (Errno 1060))]\<rparr>"
  have stop: "Stop a_ws ?w =
     ([OpenSCManager, OpenService ''svc'', Service_Control svc_Stop,
       time_After (5000 * Millisecond + 2 * (50 * Millisecond)),
       time_NewTicker (50 * Millisecond), Ticker_Stop, Service_Close, mgr_Disconnect],
      Some None)"
    by (simp add: Stop_def stopWait_def stopWait_loop.simps getStopTimeout_def a_world_def
        a_ws_def a_service_def status_of_def mult.commute)
  have h: "snd (Stop a_ws ?w) = Some None \<and> w_Connect ?w = None \<and>
      w_mgr_OpenService ?w = None \<and> w_Delete ?w = None \<and>
      (w_eventlog_Remove ?w = None \<or> w_eventlog_Remove ?w = Some (Errno 2))"
    unfolding stop by (simp add: a_world_def)
  have t: "getStopTimeout ?w = 5000 * Millisecond"
    by (simp add: getStopTimeout_def a_world_def)
  have n: "Name a_ws = ''svc''"
    by (simp add: a_ws_def a_service_def)
  have sel: "w_uninstallWait ?w = [Tick None, Tick (Some (Errno 1060))]"
    by (simp add: a_world_def)
  from Uninstall_steps[of a_ws ?w, THEN conjunct2, THEN conjunct2, THEN conjunct1,
      rule_format, OF h, THEN conjunct1]
  show ?thesis
    unfolding stop t n sel
    by (simp add: errnoServiceDoesNotExist_def)
qed

text \<open>A run in which the stop control fails (errno 1062, the service is not
  running): \<^verbatim>\<open>Uninstall\<close> returns that error and the service entry is not
  deleted.\<close>

theorem Uninstall_stops_at_failed_Stop:
  "Uninstall a_ws (a_world\<lparr>w_Control := Inl (Errno 1062)\<rparr>) =
     ([OpenSCManager, OpenService ''svc'', Service_Control svc_Stop,
       Service_Close, mgr_Disconnect],
      Some (Some (Errno 1062))) \<and>
   Service_Delete \<notin> set (fst (Uninstall a_ws (a_world\<lparr>w_Control := Inl (Errno 1062)\<rparr>)))"
  by (simp add: Uninstall_def Stop_def stopWait_def a_world_def a_ws_def a_service_def)

subsection \<open>Install and the event-log source\<close>

text \<open>
  C10. When \<^verbatim>\<open>Install\<close> has created the service entry and set the recovery
  actions if there are any, and registering the event-log source fails: if the
  text of the error does not contain "exists", \<^verbatim>\<open>Install\<close> deletes the
  service entry it has just created, after the registration and before it
  returns, and returns an error made of "SetupEventLogSource() failed: " and
  that text; if the text contains "exists", \<^verbatim>\<open>Install\<close> returns no error
  and never deletes the service entry.
\<close>

theorem Install_eventlog_failure:
  assumes "w_execPath w = Inr exepath" "w_Connect w = None"
    "setEnvironmentVariablesInRegistry ws w = (env, None)"
    "w_mgr_OpenService w = Some e0" "w_CreateService w = None"
    "Option_string ws OnFailure [] = [] \<or> w_SetRecoveryActions w = None"
    "w_InstallAsEventCreate w = Some err"
  shows "(\<not> Contains (Error (w_Error w) err) ''exists'' \<longrightarrow>
            snd (Install ws w) =
              Some (ErrorString (''SetupEventLogSource() failed: '' @ Error (w_Error w) err)) \<and>
            (\<exists>pre rec. fst (Install ws w) =
               pre @ [Install_create ws exepath] @ rec @
               [Install_register ws, Service_Delete, Service_Close, mgr_Disconnect] \<and>
               Service_Delete \<notin> set pre \<and> Service_Delete \<notin> set rec)) \<and>
         (Contains (Error (w_Error w) err) ''exists'' \<longrightarrow>
            snd (Install ws w) = None \<and>
            Install_create ws exepath \<in> set (fst (Install ws w)) \<and>
            Service_Delete \<notin> set (fst (Install ws w)))"
proof -
  have env: "Service_Delete \<notin> set env"
    using assms(3)
    by (auto simp: setEnvironmentVariablesInRegistry_def Let_def
        split: if_splits option.splits)
  define rec where "rec =
    (if Option_string ws OnFailure [] \<noteq> [] then
       [Service_SetRecoveryActions
          (if Option_string ws OnFailure [] = OnFailureReboot then mgr_ComputerReboot
           else if Option_string ws OnFailure [] = OnFailureRestart then mgr_ServiceRestart
           else if Option_string ws OnFailure [] = OnFailureNoAction then mgr_NoAction
           else mgr_ServiceRestart)
          (case w_ParseDuration w (Option_string ws OnFailureDelayDuration ''1s'') of
             Some d \<Rightarrow> d | None \<Rightarrow> 1 * Second)
          (word_of_int (Option_int ws OnFailureResetPeriod 10))]
     else [])"
  have rec: "Service_Delete \<notin> set rec"
    by (simp add: rec_def)
  have seven: "or (or eventlog_Error eventlog_Warning) eventlog_Info = (7 :: 32 word)"
    by (simp add: eventlog_Error_def eventlog_Warning_def eventlog_Info_def)
  have created: "Install_created ws w =
      (if \<not> Contains (Error (w_Error w) err) ''exists''
       then (rec @ [Install_register ws, Service_Delete, Service_Close, mgr_Disconnect],
             Some (ErrorString (''SetupEventLogSource() failed: '' @ Error (w_Error w) err)))
       else (rec @ [Install_register ws, Service_Close, mgr_Disconnect], None))"
    using assms(6,7)
    by (auto simp: Install_created_def Let_def rec_def Install_register_def seven)
  have inst: "Install ws w =
      (mgr_Connect # env @ [mgr_OpenService (Name ws), Install_create ws exepath] @
         fst (Install_created ws w),
       snd (Install_created ws w))"
    using assms(1-5)
    by (simp add: Install_def Let_def Install_create_def split: prod.splits)
  show ?thesis
  proof (cases "Contains (Error (w_Error w) err) ''exists''")
    case True
    with env rec show ?thesis
      by (simp add: inst created Install_register_def Install_create_def)
  next
    case False
    have "fst (Install ws w) =
        (mgr_Connect # env @ [mgr_OpenService (Name ws)]) @ [Install_create ws exepath] @ rec @
        [Install_register ws, Service_Delete, Service_Close, mgr_Disconnect]"
      using False by (simp add: inst created)
    moreover have "Service_Delete \<notin> set (mgr_Connect # env @ [mgr_OpenService (Name ws)])"
      using env by simp
    ultimately have "\<exists>pre rec. fst (Install ws w) =
               pre @ [Install_create ws exepath] @ rec @
               [Install_register ws, Service_Delete, Service_Close, mgr_Disconnect] \<and>
               Service_Delete \<notin> set pre \<and> Service_Delete \<notin> set rec"
      using rec by blast
    with False show ?thesis
      by (simp add: inst created)
  qed
qed

theorem Install_eventlog_failure_witness:
  "snd (Install a_ws
     (a_world\<lparr>w_mgr_OpenService := Some (Errno 1060),
              w_InstallAsEventCreate := Some (Errno 5)\<rparr>)) =
     Some (ErrorString ''SetupEventLogSource() failed: access denied'') \<and>
   snd (Install a_ws
     (a_world\<lparr>w_mgr_OpenService := Some (Errno 1060),
              w_InstallAsEventCreate := Some (ErrorString ''key already exists'')\<rparr>)) = None \<and>
   Service_Delete \<notin> set (fst (Install a_ws
     (a_world\<lparr>w_mgr_OpenService := Some (Errno 1060),
              w_InstallAsEventCreate := Some (ErrorString ''key already exists'')\<rparr>)))"
proof -
  let ?w1 = "a_world\<lparr>w_mgr_OpenService := Some (Errno 1060),
              w_InstallAsEventCreate := Some (Errno 5)\<rparr>"
  let ?w2 = "a_world\<lparr>w_mgr_OpenService := Some (Errno 1060),
              w_InstallAsEventCreate := Some (ErrorString ''key already exists'')\<rparr>"
  have env1: "setEnvironmentVariablesInRegistry a_ws ?w1 = ([], None)"
    and env2: "setEnvironmentVariablesInRegistry a_ws ?w2 = ([], None)"
    by (simp_all add: setEnvironmentVariablesInRegistry_def a_ws_def a_service_def)
  have rec: "Option_string a_ws OnFailure [] = [] \<or> w_SetRecoveryActions ?w1 = None"
    "Option_string a_ws OnFailure [] = [] \<or> w_SetRecoveryActions ?w2 = None"
    by (simp_all add: a_ws_def a_service_def)
  have no: "\<not> Contains (Error (w_Error ?w1) (Errno 5)) ''exists''"
    by (simp add: a_world_def)
  have yes: "Contains (Error (w_Error ?w2) (ErrorString ''key already exists'')) ''exists''"
    by simp
  have h1: "w_execPath ?w1 = Inr ''svc.exe''" "w_Connect ?w1 = None"
    "w_mgr_OpenService ?w1 = Some (Errno 1060)" "w_CreateService ?w1 = None"
    "w_InstallAsEventCreate ?w1 = Some (Errno 5)"
    by (simp_all add: a_world_def)
  have h2: "w_execPath ?w2 = Inr ''svc.exe''" "w_Connect ?w2 = None"
    "w_mgr_OpenService ?w2 = Some (Errno 1060)" "w_CreateService ?w2 = None"
    "w_InstallAsEventCreate ?w2 = Some (ErrorString ''key already exists'')"
    by (simp_all add: a_world_def)
  note i1 = Install_eventlog_failure[OF h1(1,2) env1 h1(3,4) rec(1) h1(5)]
  note i2 = Install_eventlog_failure[OF h2(1,2) env2 h2(3,4) rec(2) h2(5)]
  from i1[THEN conjunct1, rule_format, OF no]
  have 1: "snd (Install a_ws ?w1) =
     Some (ErrorString ''SetupEventLogSource() failed: access denied'')"
    by (simp add: a_world_def)
  from i2[THEN conjunct2, rule_format, OF yes]
  have 2: "snd (Install a_ws ?w2) = None \<and> Service_Delete \<notin> set (fst (Install a_ws ?w2))"
    by simp
  from 1 2 show ?thesis by simp
qed

end
